theory Spec2Isabelle
  imports Complex_Main "HOL-Library.Product_Lexorder"
begin

section \<open>Python values used by the data-access layer\<close>

text \<open>
  The exceptions the modelled code can raise. \<open>IntegrityError\<close> is the store's
  constraint failure (NOT NULL, UNIQUE), \<open>OperationalError\<close> its refusal to hand out
  another key once the largest one is taken; the others are Python's own.
\<close>

datatype error =
    ValueError
  | TypeError
  | OverflowError
  | KeyError
  | ZeroDivisionError
  | IntegrityError
  | OperationalError

text \<open>
  Truthiness, as \<^verbatim>\<open>if x\<close>, \<^verbatim>\<open>not x\<close> and \<^verbatim>\<open>x or d\<close> test it:
  \<^verbatim>\<open>None\<close> is falsy, a text is falsy when empty, a number when zero. The test on
  an optional integer (\<^verbatim>\<open>if self.id\<close>, \<^verbatim>\<open>if user_id\<close>):
\<close>

definition truthy_int :: "int option \<Rightarrow> bool" where
  "truthy_int v = (case v of None \<Rightarrow> False | Some n \<Rightarrow> n \<noteq> 0)"


text \<open>
  \<^verbatim>\<open>float(v) if v else 0.0\<close>: amounts are modelled as exact reals, so an amount is
  always a number (a float that is not \<^verbatim>\<open>nan\<close>).
\<close>

definition float_or_zero :: "real option \<Rightarrow> real" where
  "float_or_zero v = (case v of None \<Rightarrow> 0 | Some x \<Rightarrow> if x = 0 then 0 else x)"

text \<open>\<^verbatim>\<open>bool(v) if v else False\<close> on an integer column.\<close>

definition bool_or_false :: "int option \<Rightarrow> bool" where
  "bool_or_false v = (case v of None \<Rightarrow> False | Some n \<Rightarrow> if n = 0 then False else True)"

text \<open>The integer a Python \<^verbatim>\<open>bool\<close> is bound as in a statement parameter.\<close>

definition int_of_bool :: "bool \<Rightarrow> int" where
  "int_of_bool b = (if b then 1 else 0)"

subsection \<open>Decimal text\<close>

definition digit_char :: "nat \<Rightarrow> char" where
  "digit_char n = ''0123456789'' ! (n mod 10)"

definition digit_val :: "char \<Rightarrow> nat option" where
  "digit_val c =
     (let k = (of_char c :: nat) in if 48 \<le> k \<and> k \<le> 57 then Some (k - 48) else None)"

text \<open>\<^verbatim>\<open>str(n)\<close> for a natural number, and for an integer.\<close>

fun str_nat :: "nat \<Rightarrow> string" where
  "str_nat n = (if n < 10 then [digit_char n] else str_nat (n div 10) @ [digit_char (n mod 10)])"

declare str_nat.simps [simp del]

definition str_int :: "int \<Rightarrow> string" where
  "str_int i = (if i < 0 then CHR ''-'' # str_nat (nat (- i)) else str_nat (nat i))"

text \<open>
  \<^verbatim>\<open>f'{i:0wd}'\<close>: the sign, then the digits padded with zeros on the left
  until the whole text has width \<open>w\<close>.
\<close>

definition zfill :: "nat \<Rightarrow> nat \<Rightarrow> string" where
  "zfill w n = replicate (w - length (str_nat n)) CHR ''0'' @ str_nat n"

definition format_0d :: "nat \<Rightarrow> int \<Rightarrow> string" where
  "format_0d w i =
     (if i < 0 then CHR ''-'' # zfill (w - 1) (nat (- i)) else zfill w (nat i))"

text \<open>The value of a text made of decimal digits only; \<open>None\<close> otherwise.\<close>

fun parse_digits_acc :: "nat \<Rightarrow> string \<Rightarrow> nat option" where
  "parse_digits_acc acc [] = Some acc"
| "parse_digits_acc acc (c # cs) =
     (case digit_val c of None \<Rightarrow> None | Some d \<Rightarrow> parse_digits_acc (10 * acc + d) cs)"

definition parse_digits :: "string \<Rightarrow> nat option" where
  "parse_digits s = (if s = [] then None else parse_digits_acc 0 s)"

text \<open>\<^verbatim>\<open>s.replace(c, t)\<close> for a one-character pattern.\<close>

fun str_replace :: "char \<Rightarrow> string \<Rightarrow> string \<Rightarrow> string" where
  "str_replace c t [] = []"
| "str_replace c t (x # xs) = (if x = c then t @ str_replace c t xs else x # str_replace c t xs)"

section \<open>Naive and aware datetimes\<close>

text \<open>
  The fields of a \<^verbatim>\<open>datetime\<close>. \<^verbatim>\<open>datetime.utcnow()\<close> returns a naive value
  (no \<^verbatim>\<open>tzinfo\<close>); it is the parameter \<open>utcnow\<close> of every function that reads the
  clock. A parsed text may carry an offset from UTC, kept in microseconds.
\<close>

record wallclock =
  w_year :: nat
  w_month :: nat
  w_day :: nat
  w_hour :: nat
  w_minute :: nat
  w_second :: nat
  w_microsecond :: nat

record datetime =
  clock :: wallclock
  tzinfo :: "int option"

definition is_leap :: "nat \<Rightarrow> bool" where
  "is_leap y = (y mod 4 = 0 \<and> (y mod 100 \<noteq> 0 \<or> y mod 400 = 0))"

definition days_in_month :: "nat \<Rightarrow> nat \<Rightarrow> nat" where
  "days_in_month y m =
     (if m = 2 then (if is_leap y then 29 else 28)
      else if m = 4 \<or> m = 6 \<or> m = 9 \<or> m = 11 then 30 else 31)"

text \<open>The range checks of the \<^verbatim>\<open>datetime\<close> constructor.\<close>

definition valid_wallclock :: "wallclock \<Rightarrow> bool" where
  "valid_wallclock w =
     (1 \<le> w_year w \<and> w_year w \<le> 9999 \<and> 1 \<le> w_month w \<and> w_month w \<le> 12 \<and>
      1 \<le> w_day w \<and> w_day w \<le> days_in_month (w_year w) (w_month w) \<and>
      w_hour w < 24 \<and> w_minute w < 60 \<and> w_second w < 60 \<and> w_microsecond w < 1000000)"

text \<open>Naive datetimes compare field by field, most significant first.\<close>

definition sort_key :: "wallclock \<Rightarrow> nat \<times> nat \<times> nat \<times> nat \<times> nat \<times> nat \<times> nat" where
  "sort_key w = (w_year w, w_month w, w_day w, w_hour w, w_minute w, w_second w, w_microsecond w)"

text \<open>
  \<^verbatim>\<open>utcnow > d\<close> and \<^verbatim>\<open>utcnow <= d\<close> for the naive clock reading: Python
  refuses to order a naive and an aware datetime and raises \<^verbatim>\<open>TypeError\<close>.
\<close>

definition dt_gt :: "wallclock \<Rightarrow> datetime \<Rightarrow> error + bool" where
  "dt_gt utcnow d =
     (case tzinfo d of
        Some off \<Rightarrow> Inl TypeError
      | None \<Rightarrow> Inr (sort_key (clock d) < sort_key utcnow))"

definition dt_le :: "wallclock \<Rightarrow> datetime \<Rightarrow> error + bool" where
  "dt_le utcnow d =
     (case tzinfo d of
        Some off \<Rightarrow> Inl TypeError
      | None \<Rightarrow> Inr (sort_key utcnow \<le> sort_key (clock d)))"

subsection \<open>\<^verbatim>\<open>datetime.fromisoformat\<close>\<close>

text \<open>
  The grammar of \<^verbatim>\<open>datetime.fromisoformat\<close> in Python 3.7 to 3.10:
  \<^verbatim>\<open>YYYY-MM-DD[*HH[:MM[:SS[.fff[fff]]]][+HH:MM[:SS[.ffffff]]]]\<close>,
  where \<^verbatim>\<open>*\<close> is any one character. Everything else is a \<^verbatim>\<open>ValueError\<close>.
  Python 3.11 reads more of ISO 8601 and refuses a date followed by a lone separator.
  The properties below apply the parser only to texts every version reads alike: what
  \<^verbatim>\<open>isoformat\<close> writes, and the same followed by \<^verbatim>\<open>+00:00\<close>.
\<close>

fun parse2 :: "string \<Rightarrow> (nat \<times> string) option" where
  "parse2 (a # b # rest) =
     (case (digit_val a, digit_val b) of
        (Some x, Some y) \<Rightarrow> Some (10 * x + y, rest)
      | _ \<Rightarrow> None)"
| "parse2 _ = None"

definition parse_fraction :: "string \<Rightarrow> error + nat" where
  "parse_fraction f =
     (if length f = 3 \<or> length f = 6 then
        (case parse_digits f of
           None \<Rightarrow> Inl ValueError
         | Some n \<Rightarrow> Inr (if length f = 3 then n * 1000 else n))
      else Inl ValueError)"

definition parse_hh_mm_ss_ff :: "string \<Rightarrow> error + (nat \<times> nat \<times> nat \<times> nat)" where
  "parse_hh_mm_ss_ff t =
     (case parse2 t of
        None \<Rightarrow> Inl ValueError
      | Some (hh, r1) \<Rightarrow>
          (case r1 of
             [] \<Rightarrow> Inr (hh, 0, 0, 0)
           | c1 # t1 \<Rightarrow>
               if c1 \<noteq> CHR '':'' then Inl ValueError
               else (case parse2 t1 of
                  None \<Rightarrow> Inl ValueError
                | Some (mm, r2) \<Rightarrow>
                    (case r2 of
                       [] \<Rightarrow> Inr (hh, mm, 0, 0)
                     | c2 # t2 \<Rightarrow>
                         if c2 \<noteq> CHR '':'' then Inl ValueError
                         else (case parse2 t2 of
                            None \<Rightarrow> Inl ValueError
                          | Some (ss, r3) \<Rightarrow>
                              (case r3 of
                                 [] \<Rightarrow> Inr (hh, mm, ss, 0)
                               | c3 # f \<Rightarrow>
                                   if c3 \<noteq> CHR ''.'' then Inl ValueError
                                   else (case parse_fraction f of
                                      Inl e \<Rightarrow> Inl e
                                    | Inr us \<Rightarrow> Inr (hh, mm, ss, us))))))))"

text \<open>
  The offset starts at the first \<^verbatim>\<open>-\<close> of the time text if there is one, else at
  its first \<^verbatim>\<open>+\<close> (\<^verbatim>\<open>tstr.find('-') + 1 or tstr.find('+') + 1\<close>).
\<close>

definition tz_sign :: "string \<Rightarrow> char option" where
  "tz_sign tstr =
     (if CHR ''-'' \<in> set tstr then Some CHR ''-''
      else if CHR ''+'' \<in> set tstr then Some CHR ''+'' else None)"

definition micros :: "nat \<times> nat \<times> nat \<times> nat \<Rightarrow> int" where
  "micros c = (case c of (hh, mm, ss, us) \<Rightarrow>
     ((int hh * 60 + int mm) * 60 + int ss) * 1000000 + int us)"

definition parse_isoformat_time :: "string \<Rightarrow> error + ((nat \<times> nat \<times> nat \<times> nat) \<times> int option)" where
  "parse_isoformat_time tstr =
     (if length tstr < 2 then Inl ValueError
      else case tz_sign tstr of
        None \<Rightarrow>
          (case parse_hh_mm_ss_ff tstr of Inl e \<Rightarrow> Inl e | Inr tc \<Rightarrow> Inr (tc, None))
      | Some sg \<Rightarrow>
          (case parse_hh_mm_ss_ff (takeWhile (\<lambda>c. c \<noteq> sg) tstr) of
             Inl e \<Rightarrow> Inl e
           | Inr tc \<Rightarrow>
               (let tzstr = tl (dropWhile (\<lambda>c. c \<noteq> sg) tstr) in
                if length tzstr \<noteq> 5 \<and> length tzstr \<noteq> 8 \<and> length tzstr \<noteq> 15
                then Inl ValueError
                else case parse_hh_mm_ss_ff tzstr of
                  Inl e \<Rightarrow> Inl e
                | Inr zc \<Rightarrow>
                    if micros zc \<ge> 86400000000 then Inl ValueError
                    else Inr (tc, Some (if sg = CHR ''-'' then - micros zc else micros zc)))))"

definition parse_isoformat_date :: "string \<Rightarrow> error + (nat \<times> nat \<times> nat)" where
  "parse_isoformat_date dstr =
     (if length dstr \<noteq> 10 then Inl ValueError
      else case (parse_digits (take 4 dstr), parse_digits (take 2 (drop 5 dstr)),
                 parse_digits (take 2 (drop 8 dstr))) of
        (Some y, Some m, Some d) \<Rightarrow>
          if dstr ! 4 = CHR ''-'' \<and> dstr ! 7 = CHR ''-'' then Inr (y, m, d) else Inl ValueError
      | _ \<Rightarrow> Inl ValueError)"

definition fromisoformat :: "string \<Rightarrow> error + datetime" where
  "fromisoformat date_string =
     (case parse_isoformat_date (take 10 date_string) of
        Inl e \<Rightarrow> Inl e
      | Inr (y, m, d) \<Rightarrow>
          (case (if drop 11 date_string = [] then Inr ((0, 0, 0, 0), None)
                 else parse_isoformat_time (drop 11 date_string)) of
             Inl e \<Rightarrow> Inl e
           | Inr ((hh, mm, ss, us), tz) \<Rightarrow>
               (let w = \<lparr>w_year = y, w_month = m, w_day = d, w_hour = hh, w_minute = mm,
                         w_second = ss, w_microsecond = us\<rparr>
                in if valid_wallclock w then Inr \<lparr>clock = w, tzinfo = tz\<rparr>
                   else Inl ValueError)))"

subsection \<open>\<^verbatim>\<open>datetime.isoformat\<close> and adding whole days\<close>

definition isoformat :: "wallclock \<Rightarrow> string" where
  "isoformat w =
     zfill 4 (w_year w) @ ''-'' @ zfill 2 (w_month w) @ ''-'' @ zfill 2 (w_day w) @ ''T'' @
     zfill 2 (w_hour w) @ '':'' @ zfill 2 (w_minute w) @ '':'' @ zfill 2 (w_second w) @
     (if w_microsecond w = 0 then [] else ''.'' @ zfill 6 (w_microsecond w))"



subsection \<open>Counting days\<close>





section \<open>The record classes\<close>

text \<open>
  The attributes of each class after its constructor has run: \<^verbatim>\<open>active\<close>,
  \<^verbatim>\<open>subscription_plan\<close>, \<^verbatim>\<open>subscription_status\<close>, \<^verbatim>\<open>amount\<close>,
  \<^verbatim>\<open>status\<close> and the flags are coerced there and never \<^verbatim>\<open>None\<close>; every other
  attribute may be. Attribute names carry the class's initial.
\<close>

record user =
  u_id :: "int option"
  u_username :: "string option"
  u_email :: "string option"
  u_password_hash :: "string option"
  u_full_name :: "string option"
  u_phone :: "string option"
  u_created_at :: "string option"
  u_active :: bool
  u_trial_start_date :: "string option"
  u_trial_end_date :: "string option"
  u_subscription_plan :: string
  u_subscription_status :: string
  u_subscription_end_date :: "string option"

text \<open>
  The \<^verbatim>\<open>date\<close> of a transaction is \<^verbatim>\<open>None\<close> or a text that only the store
  reads, in \<^verbatim>\<open>strftime\<close>: a text \<^verbatim>\<open>YYYY-MM-DD\<close>, alone or followed by a time
  of day from \<^verbatim>\<open>00:00\<close> to \<^verbatim>\<open>23:59:59\<close> with no zone offset. It is represented
  by the three numbers written there, whether or not the calendar has that day.
\<close>

record sql_date =
  d_year :: nat
  d_month :: nat
  d_day :: nat

record transaction =
  t_id :: "int option"
  t_user_id :: "int option"
  t_description :: "string option"
  t_amount :: real
  t_transaction_type :: "string option"
  t_category :: "string option"
  t_date :: "sql_date option"
  t_created_at :: "string option"
  t_is_recurring :: bool
  t_recurrence_type :: "string option"
  t_account_id :: "int option"

record account =
  a_id :: "int option"
  a_user_id :: "int option"
  a_name :: "string option"
  a_account_type :: "string option"
  a_amount :: real
  a_due_date :: "string option"
  a_status :: string
  a_created_at :: "string option"

record financial_goal =
  g_id :: "int option"
  g_user_id :: "int option"
  g_title :: "string option"
  g_target_amount :: real
  g_current_amount :: real
  g_target_date :: "string option"
  g_created_at :: "string option"
  g_is_completed :: bool

subsection \<open>The subscription and trial gate\<close>

definition is_trial_expired :: "wallclock \<Rightarrow> user \<Rightarrow> error + bool" where
  "is_trial_expired utcnow u =
     (case u_trial_end_date u of
        None \<Rightarrow> Inr False
      | Some s \<Rightarrow>
          if s = [] then Inr False
          else (case fromisoformat (str_replace CHR ''Z'' ''+00:00'' s) of
             Inl e \<Rightarrow> Inl e
           | Inr trial_end \<Rightarrow> dt_gt utcnow trial_end))"

text \<open>
  What \<^verbatim>\<open>is_subscription_active\<close> returns: \<^verbatim>\<open>a and b and c\<close> yields its first
  falsy operand, so besides a \<^verbatim>\<open>bool\<close> the result can be the \<^verbatim>\<open>None\<close> or the
  empty text found in \<^verbatim>\<open>subscription_end_date\<close>.
\<close>

datatype pyval = PyBool bool | PyNone | PyStr string

definition is_subscription_active :: "wallclock \<Rightarrow> user \<Rightarrow> error + pyval" where
  "is_subscription_active utcnow u =
     (if u_subscription_status u = ''trial'' then
        (case is_trial_expired utcnow u of
           Inl e \<Rightarrow> Inl e
         | Inr expired \<Rightarrow> Inr (PyBool (\<not> expired)))
      else if u_subscription_status u = ''active'' then
        (case u_subscription_end_date u of
           None \<Rightarrow> Inr PyNone
         | Some s \<Rightarrow>
             if s = [] then Inr (PyStr s)
             else (case fromisoformat (str_replace CHR ''Z'' ''+00:00'' s) of
                Inl e \<Rightarrow> Inl e
              | Inr d \<Rightarrow>
                  (case dt_le utcnow d of Inl e \<Rightarrow> Inl e | Inr b \<Rightarrow> Inr (PyBool b))))
      else Inr (PyBool False))"

subsection \<open>Plan features\<close>

record plan_features =
  name :: string
  transactions_limit :: int
  reports :: bool
  automation :: bool
  multi_user :: bool

text \<open>
  The literal dictionary of \<^verbatim>\<open>get_plan_features\<close>, in its order. The accented letter
  of the first name is written as its two UTF-8 bytes.
\<close>

definition features :: "(string \<times> plan_features) list" where
  "features =
     [(''trial'',
        \<lparr>name = ''Teste Gr'' @ [CHR 0xC3, CHR 0xA1] @ ''tis'', transactions_limit = 10,
         reports = False, automation = False, multi_user = False\<rparr>),
      (''mei'',
        \<lparr>name = ''Plano MEI'', transactions_limit = 100,
         reports = True, automation = False, multi_user = False\<rparr>),
      (''professional'',
        \<lparr>name = ''Plano Profissional'', transactions_limit = 500,
         reports = True, automation = True, multi_user = False\<rparr>),
      (''enterprise'',
        \<lparr>name = ''Plano Empresarial'', transactions_limit = - 1,
         reports = True, automation = True, multi_user = True\<rparr>)]"

text \<open>\<^verbatim>\<open>d[k]\<close>, which raises on a missing key, and \<^verbatim>\<open>d.get(k, default)\<close>.\<close>

definition dict_getitem :: "('k \<times> 'v) list \<Rightarrow> 'k \<Rightarrow> error + 'v" where
  "dict_getitem d k = (case map_of d k of None \<Rightarrow> Inl KeyError | Some v \<Rightarrow> Inr v)"

definition dict_get :: "('k \<times> 'v) list \<Rightarrow> 'k \<Rightarrow> 'v \<Rightarrow> 'v" where
  "dict_get d k dflt = (case map_of d k of None \<Rightarrow> dflt | Some v \<Rightarrow> v)"

definition get_plan_features :: "user \<Rightarrow> error + plan_features" where
  "get_plan_features u =
     (case dict_getitem features ''trial'' of
        Inl e \<Rightarrow> Inl e
      | Inr dflt \<Rightarrow> Inr (dict_get features (u_subscription_plan u) dflt))"

subsection \<open>Goal progress\<close>

text \<open>Python's \<^verbatim>\<open>/\<close> raises on a zero divisor.\<close>

definition truediv :: "real \<Rightarrow> real \<Rightarrow> error + real" where
  "truediv a b = (if b = 0 then Inl ZeroDivisionError else Inr (a / b))"

definition get_progress_percentage :: "financial_goal \<Rightarrow> error + real" where
  "get_progress_percentage g =
     (if g_target_amount g = 0 then Inr 0
      else (case truediv (g_current_amount g) (g_target_amount g) of
         Inl e \<Rightarrow> Inl e
       | Inr q \<Rightarrow> Inr (min 100 (q * 100))))"

section \<open>The store\<close>

text \<open>
  One row type per table of \<^verbatim>\<open>init_db\<close>: a \<^verbatim>\<open>NOT NULL\<close> column holds a value,
  every other column a value or \<^verbatim>\<open>NULL\<close> (\<open>None\<close>). Column names carry the
  table's initial and \<open>r\<close>.
\<close>

record user_row =
  ur_id :: int
  ur_username :: string
  ur_email :: string
  ur_password_hash :: string
  ur_full_name :: string
  ur_phone :: "string option"
  ur_created_at :: "string option"
  ur_active :: "int option"
  ur_trial_start_date :: "string option"
  ur_trial_end_date :: "string option"
  ur_subscription_plan :: "string option"
  ur_subscription_status :: "string option"
  ur_subscription_end_date :: "string option"

record transaction_row =
  tr_id :: int
  tr_user_id :: int
  tr_description :: string
  tr_amount :: real
  tr_transaction_type :: string
  tr_category :: "string option"
  tr_date :: "sql_date option"
  tr_created_at :: "string option"
  tr_is_recurring :: "int option"
  tr_recurrence_type :: "string option"
  tr_account_id :: "int option"

record account_row =
  ar_id :: int
  ar_user_id :: int
  ar_name :: string
  ar_account_type :: string
  ar_amount :: "real option"
  ar_due_date :: "string option"
  ar_status :: "string option"
  ar_created_at :: "string option"

record goal_row =
  gr_id :: int
  gr_user_id :: int
  gr_title :: string
  gr_target_amount :: real
  gr_current_amount :: "real option"
  gr_target_date :: "string option"
  gr_created_at :: "string option"
  gr_is_completed :: "int option"

text \<open>
  The database file: the rows of each table in insertion order and, for each table, the
  largest key \<^verbatim>\<open>AUTOINCREMENT\<close> has handed out (\<^verbatim>\<open>sqlite_sequence\<close>).
\<close>

record db =
  users :: "user_row list"
  users_seq :: int
  transactions :: "transaction_row list"
  transactions_seq :: int
  accounts :: "account_row list"
  accounts_seq :: int
  financial_goals :: "goal_row list"
  financial_goals_seq :: int

text \<open>What \<^verbatim>\<open>init_db\<close> leaves when the file is new.\<close>

definition init_db :: db where
  "init_db =
     \<lparr>users = [], users_seq = 0, transactions = [], transactions_seq = 0,
      accounts = [], accounts_seq = 0, financial_goals = [], financial_goals_seq = 0\<rparr>"

text \<open>
  \<^verbatim>\<open>cursor.lastrowid\<close> after an insert into an \<^verbatim>\<open>AUTOINCREMENT\<close> table: one more
  than the largest key the table holds or has ever handed out.
\<close>

definition lastrowid :: "int list \<Rightarrow> int \<Rightarrow> int" where
  "lastrowid ids seq = fold max ids seq + 1"


text \<open>
  \<^verbatim>\<open>cursor.execute(sql, parameters)\<close> binds the parameters before the statement
  runs. \<^verbatim>\<open>None\<close> is bound as \<^verbatim>\<open>NULL\<close>; an integer must fit the store's signed
  64-bit \<^verbatim>\<open>INTEGER\<close>, or the driver raises \<^verbatim>\<open>OverflowError\<close> and the store is
  not touched. \<open>cursor_execute\<close> takes the integer parameters of the call and the outcome
  of the statement.
\<close>

definition int64 :: "int \<Rightarrow> bool" where
  "int64 i = (- (2 ^ 63) \<le> i \<and> i < 2 ^ 63)"

definition bindable :: "int option \<Rightarrow> bool" where
  "bindable v = (case v of None \<Rightarrow> True | Some i \<Rightarrow> int64 i)"

definition cursor_execute :: "int option list \<Rightarrow> error + 'a \<Rightarrow> error + 'a" where
  "cursor_execute parameters outcome =
     (if list_all bindable parameters then outcome else Inl OverflowError)"

text \<open>
  \<^verbatim>\<open>COALESCE(SUM(amount), 0)\<close>: \<^verbatim>\<open>SUM\<close> skips \<^verbatim>\<open>NULL\<close> and is itself
  \<^verbatim>\<open>NULL\<close> when no value is left.
\<close>

definition sql_sum :: "real option list \<Rightarrow> real option" where
  "sql_sum vs =
     (case List.map_filter (\<lambda>v. v) vs of [] \<Rightarrow> None | x # xs \<Rightarrow> Some (sum_list (x # xs)))"

definition coalesce :: "real option \<Rightarrow> real \<Rightarrow> real" where
  "coalesce v d = (case v of None \<Rightarrow> d | Some x \<Rightarrow> x)"

text \<open>
  The store reads a date text when the year has four digits, the month is 01 to 12 and
  the day is 01 to 31, in any month. A day past the end of its month is carried into the
  next month by the newer releases of the store (\<^verbatim>\<open>2023-02-31\<close> reads as 3 March)
  and kept as written by the older ones; \<open>renormalizes\<close> says which release runs.
\<close>

definition readable_date :: "sql_date \<Rightarrow> bool" where
  "readable_date d =
     (d_year d \<le> 9999 \<and> 1 \<le> d_month d \<and> d_month d \<le> 12 \<and> 1 \<le> d_day d \<and> d_day d \<le> 31)"

definition renormalized :: "sql_date \<Rightarrow> sql_date" where
  "renormalized d =
     (if d_day d \<le> days_in_month (d_year d) (d_month d) then d
      else d\<lparr>d_month := d_month d + 1,
             d_day := d_day d - days_in_month (d_year d) (d_month d)\<rparr>)"

definition shown_date :: "bool \<Rightarrow> sql_date \<Rightarrow> sql_date" where
  "shown_date renormalizes d = (if renormalizes then renormalized d else d)"

text \<open>
  \<^verbatim>\<open>strftime('%m', date)\<close> and \<^verbatim>\<open>strftime('%Y', date)\<close>: the month in two
  digits and the year in four (\<^verbatim>\<open>%02d\<close>, \<^verbatim>\<open>%04d\<close>), \<^verbatim>\<open>NULL\<close> for
  \<^verbatim>\<open>NULL\<close> and for a text the store does not read as a date.
\<close>

definition strftime_m :: "bool \<Rightarrow> sql_date option \<Rightarrow> string option" where
  "strftime_m renormalizes v =
     (case v of None \<Rightarrow> None
      | Some d \<Rightarrow> if readable_date d
                  then Some (zfill 2 (d_month (shown_date renormalizes d))) else None)"

definition strftime_Y :: "bool \<Rightarrow> sql_date option \<Rightarrow> string option" where
  "strftime_Y renormalizes v =
     (case v of None \<Rightarrow> None
      | Some d \<Rightarrow> if readable_date d
                  then Some (zfill 4 (d_year (shown_date renormalizes d))) else None)"

subsection \<open>Constructors from a row\<close>


definition Transaction_of_row :: "transaction_row \<Rightarrow> transaction" where
  "Transaction_of_row r =
     \<lparr>t_id = Some (tr_id r), t_user_id = Some (tr_user_id r),
      t_description = Some (tr_description r),
      t_amount = float_or_zero (Some (tr_amount r)),
      t_transaction_type = Some (tr_transaction_type r), t_category = tr_category r,
      t_date = tr_date r, t_created_at = tr_created_at r,
      t_is_recurring = bool_or_false (tr_is_recurring r),
      t_recurrence_type = tr_recurrence_type r, t_account_id = tr_account_id r\<rparr>"


definition FinancialGoal_of_row :: "goal_row \<Rightarrow> financial_goal" where
  "FinancialGoal_of_row r =
     \<lparr>g_id = Some (gr_id r), g_user_id = Some (gr_user_id r), g_title = Some (gr_title r),
      g_target_amount = float_or_zero (Some (gr_target_amount r)),
      g_current_amount = float_or_zero (gr_current_amount r),
      g_target_date = gr_target_date r, g_created_at = gr_created_at r,
      g_is_completed = bool_or_false (gr_is_completed r)\<rparr>"

subsection \<open>Lookups\<close>





subsection \<open>Aggregates\<close>

text \<open>
  The rows one query of \<^verbatim>\<open>get_monthly_summary\<close> selects: the month is compared as
  \<^verbatim>\<open>f'{month:02d}'\<close>, the year as \<^verbatim>\<open>str(year)\<close>. Both queries bind the
  user's identifier, the only integer parameter.
\<close>

definition monthly_rows ::
  "bool \<Rightarrow> db \<Rightarrow> int \<Rightarrow> string \<Rightarrow> int \<Rightarrow> int \<Rightarrow> transaction_row list" where
  "monthly_rows renormalizes d user_id ty month year =
     filter (\<lambda>r. tr_user_id r = user_id \<and> tr_transaction_type r = ty \<and>
                 strftime_m renormalizes (tr_date r) = Some (format_0d 2 month) \<and>
                 strftime_Y renormalizes (tr_date r) = Some (str_int year))
       (transactions d)"

definition get_monthly_summary ::
  "bool \<Rightarrow> db \<Rightarrow> int \<Rightarrow> int \<Rightarrow> int \<Rightarrow> error + real \<times> real" where
  "get_monthly_summary renormalizes d user_id month year =
     cursor_execute [Some user_id]
       (let income = coalesce (sql_sum (map (\<lambda>r. Some (tr_amount r))
                       (monthly_rows renormalizes d user_id ''income'' month year))) 0;
            expenses = coalesce (sql_sum (map (\<lambda>r. Some (tr_amount r))
                       (monthly_rows renormalizes d user_id ''expense'' month year))) 0
        in Inr (income, expenses))"


subsection \<open>\<^verbatim>\<open>save\<close>\<close>

text \<open>
  Each \<^verbatim>\<open>save\<close> takes the store and the record and returns both, or the store's
  \<^verbatim>\<open>IntegrityError\<close> when a \<^verbatim>\<open>NOT NULL\<close> column would receive \<^verbatim>\<open>None\<close>.
  \<open>current_timestamp\<close> is the store's clock text, the default of \<^verbatim>\<open>created_at\<close>.
  The two statements of each \<^verbatim>\<open>save\<close> are defined first. These definitions, like
  the lookups above, start where the parameters are bound and a key is left to hand out;
  the whole calls follow under \<open>Calls from the binding of their parameters\<close>.
\<close>

definition insert_into_transactions :: "string \<Rightarrow> db \<Rightarrow> transaction \<Rightarrow> error + (db \<times> transaction)" where
  "insert_into_transactions current_timestamp d t =
     (case (t_user_id t, t_description t, t_transaction_type t) of
        (Some uid, Some descr, Some ty) \<Rightarrow>
          (let k = lastrowid (map tr_id (transactions d)) (transactions_seq d);
               row = \<lparr>tr_id = k, tr_user_id = uid, tr_description = descr,
                      tr_amount = t_amount t, tr_transaction_type = ty,
                      tr_category = t_category t, tr_date = t_date t,
                      tr_created_at = Some current_timestamp,
                      tr_is_recurring = Some (int_of_bool (t_is_recurring t)),
                      tr_recurrence_type = t_recurrence_type t,
                      tr_account_id = t_account_id t\<rparr>
           in Inr (d\<lparr>transactions := transactions d @ [row], transactions_seq := k\<rparr>,
                   t\<lparr>t_id := Some k\<rparr>))
      | _ \<Rightarrow> Inl IntegrityError)"

definition update_transactions :: "db \<Rightarrow> transaction \<Rightarrow> int \<Rightarrow> error + (db \<times> transaction)" where
  "update_transactions d t k =
     (case (t_description t, t_transaction_type t) of
        (Some descr, Some ty) \<Rightarrow>
          Inr (d\<lparr>transactions :=
                   map (\<lambda>r. if tr_id r = k
                             then r\<lparr>tr_description := descr, tr_amount := t_amount t,
                                    tr_transaction_type := ty, tr_category := t_category t,
                                    tr_date := t_date t,
                                    tr_is_recurring := Some (int_of_bool (t_is_recurring t)),
                                    tr_recurrence_type := t_recurrence_type t,
                                    tr_account_id := t_account_id t\<rparr>
                             else r)
                     (transactions d)\<rparr>, t)
      | _ \<Rightarrow> if list_ex (\<lambda>r. tr_id r = k) (transactions d) then Inl IntegrityError
             else Inr (d, t))"

definition Transaction_save :: "string \<Rightarrow> db \<Rightarrow> transaction \<Rightarrow> error + (db \<times> transaction)" where
  "Transaction_save current_timestamp d t =
     (case t_id t of
        None \<Rightarrow> insert_into_transactions current_timestamp d t
      | Some k \<Rightarrow> if k = 0 then insert_into_transactions current_timestamp d t
                  else update_transactions d t k)"

definition insert_into_accounts :: "string \<Rightarrow> db \<Rightarrow> account \<Rightarrow> error + (db \<times> account)" where
  "insert_into_accounts current_timestamp d a =
     (case (a_user_id a, a_name a, a_account_type a) of
        (Some uid, Some nm, Some ty) \<Rightarrow>
          (let k = lastrowid (map ar_id (accounts d)) (accounts_seq d);
               row = \<lparr>ar_id = k, ar_user_id = uid, ar_name = nm, ar_account_type = ty,
                      ar_amount = Some (a_amount a), ar_due_date = a_due_date a,
                      ar_status = Some (a_status a),
                      ar_created_at = Some current_timestamp\<rparr>
           in Inr (d\<lparr>accounts := accounts d @ [row], accounts_seq := k\<rparr>,
                   a\<lparr>a_id := Some k\<rparr>))
      | _ \<Rightarrow> Inl IntegrityError)"

definition update_accounts :: "db \<Rightarrow> account \<Rightarrow> int \<Rightarrow> error + (db \<times> account)" where
  "update_accounts d a k =
     (case (a_name a, a_account_type a) of
        (Some nm, Some ty) \<Rightarrow>
          Inr (d\<lparr>accounts :=
                   map (\<lambda>r. if ar_id r = k
                             then r\<lparr>ar_name := nm, ar_account_type := ty,
                                    ar_amount := Some (a_amount a),
                                    ar_due_date := a_due_date a,
                                    ar_status := Some (a_status a)\<rparr>
                             else r)
                     (accounts d)\<rparr>, a)
      | _ \<Rightarrow> if list_ex (\<lambda>r. ar_id r = k) (accounts d) then Inl IntegrityError
             else Inr (d, a))"

definition Account_save :: "string \<Rightarrow> db \<Rightarrow> account \<Rightarrow> error + (db \<times> account)" where
  "Account_save current_timestamp d a =
     (case a_id a of
        None \<Rightarrow> insert_into_accounts current_timestamp d a
      | Some k \<Rightarrow> if k = 0 then insert_into_accounts current_timestamp d a
                  else update_accounts d a k)"

definition insert_into_financial_goals :: "string \<Rightarrow> db \<Rightarrow> financial_goal \<Rightarrow> error + (db \<times> financial_goal)" where
  "insert_into_financial_goals current_timestamp d g =
     (case (g_user_id g, g_title g) of
        (Some uid, Some ti) \<Rightarrow>
          (let k = lastrowid (map gr_id (financial_goals d)) (financial_goals_seq d);
               row = \<lparr>gr_id = k, gr_user_id = uid, gr_title = ti,
                      gr_target_amount = g_target_amount g,
                      gr_current_amount = Some (g_current_amount g),
                      gr_target_date = g_target_date g,
                      gr_created_at = Some current_timestamp,
                      gr_is_completed = Some (int_of_bool (g_is_completed g))\<rparr>
           in Inr (d\<lparr>financial_goals := financial_goals d @ [row], financial_goals_seq := k\<rparr>,
                   g\<lparr>g_id := Some k\<rparr>))
      | _ \<Rightarrow> Inl IntegrityError)"

definition update_financial_goals :: "db \<Rightarrow> financial_goal \<Rightarrow> int \<Rightarrow> error + (db \<times> financial_goal)" where
  "update_financial_goals d g k =
     (case g_title g of
        Some ti \<Rightarrow>
          Inr (d\<lparr>financial_goals :=
                   map (\<lambda>r. if gr_id r = k
                             then r\<lparr>gr_title := ti, gr_target_amount := g_target_amount g,
                                    gr_current_amount := Some (g_current_amount g),
                                    gr_target_date := g_target_date g,
                                    gr_is_completed := Some (int_of_bool (g_is_completed g))\<rparr>
                             else r)
                     (financial_goals d)\<rparr>, g)
      | None \<Rightarrow> if list_ex (\<lambda>r. gr_id r = k) (financial_goals d) then Inl IntegrityError
                else Inr (d, g))"

definition FinancialGoal_save :: "string \<Rightarrow> db \<Rightarrow> financial_goal \<Rightarrow> error + (db \<times> financial_goal)" where
  "FinancialGoal_save current_timestamp d g =
     (case g_id g of
        None \<Rightarrow> insert_into_financial_goals current_timestamp d g
      | Some k \<Rightarrow> if k = 0 then insert_into_financial_goals current_timestamp d g
                  else update_financial_goals d g k)"

subsection \<open>Calls from the binding of their parameters\<close>





text \<open>
  \<^verbatim>\<open>save\<close>: the update binds the record's identifier, the insert its owner, and a
  transaction its account in both. An insert into a table whose largest key is
  \<^verbatim>\<open>2^63 - 1\<close> has no key left: the store reports that it is full, before it looks at
  the columns.
\<close>

definition call_Transaction_save ::
  "string \<Rightarrow> db \<Rightarrow> transaction \<Rightarrow> error + (db \<times> transaction)" where
  "call_Transaction_save current_timestamp d t =
     (if truthy_int (t_id t)
      then cursor_execute [t_account_id t, t_id t] (Transaction_save current_timestamp d t)
      else cursor_execute [t_user_id t, t_account_id t]
             (if int64 (lastrowid (map tr_id (transactions d)) (transactions_seq d))
              then Transaction_save current_timestamp d t else Inl OperationalError))"

definition call_Account_save :: "string \<Rightarrow> db \<Rightarrow> account \<Rightarrow> error + (db \<times> account)" where
  "call_Account_save current_timestamp d a =
     (if truthy_int (a_id a)
      then cursor_execute [a_id a] (Account_save current_timestamp d a)
      else cursor_execute [a_user_id a]
             (if int64 (lastrowid (map ar_id (accounts d)) (accounts_seq d))
              then Account_save current_timestamp d a else Inl OperationalError))"

definition call_FinancialGoal_save ::
  "string \<Rightarrow> db \<Rightarrow> financial_goal \<Rightarrow> error + (db \<times> financial_goal)" where
  "call_FinancialGoal_save current_timestamp d g =
     (if truthy_int (g_id g)
      then cursor_execute [g_id g] (FinancialGoal_save current_timestamp d g)
      else cursor_execute [g_user_id g]
             (if int64 (lastrowid (map gr_id (financial_goals d)) (financial_goals_seq d))
              then FinancialGoal_save current_timestamp d g else Inl OperationalError))"

subsection \<open>\<^verbatim>\<open>User.create\<close>\<close>


section \<open>The claims in the spec's words\<close>

text \<open>
  The monthly summary as the spec words it: the amounts of the user's transactions of one
  type whose date falls in the given month and year, summed; \<open>0\<close> when there is none.
  A date falls in a month when it is a day of the calendar in that month.
\<close>

definition calendar_date :: "sql_date \<Rightarrow> bool" where
  "calendar_date d =
     (d_year d \<le> 9999 \<and> 1 \<le> d_month d \<and> d_month d \<le> 12 \<and>
      1 \<le> d_day d \<and> d_day d \<le> days_in_month (d_year d) (d_month d))"

definition falls_in :: "sql_date option \<Rightarrow> int \<Rightarrow> int \<Rightarrow> bool" where
  "falls_in v month year =
     (case v of None \<Rightarrow> False
      | Some d \<Rightarrow> calendar_date d \<and> int (d_month d) = month \<and> int (d_year d) = year)"

definition monthly_total_spec :: "db \<Rightarrow> int \<Rightarrow> string \<Rightarrow> int \<Rightarrow> int \<Rightarrow> real" where
  "monthly_total_spec d user_id ty month year =
     sum_list (map tr_amount
       (filter (\<lambda>r. tr_user_id r = user_id \<and> tr_transaction_type r = ty \<and>
                    falls_in (tr_date r) month year)
          (transactions d)))"

section \<open>Example inputs\<close>

text \<open>Concrete records and a small store on which the theorems below are exercised.\<close>

definition witness_user :: user where
  "witness_user =
     \<lparr>u_id = Some 1, u_username = Some ''ana'', u_email = Some ''ana@example.com'',
      u_password_hash = Some ''x'', u_full_name = Some ''Ana'', u_phone = None,
      u_created_at = None, u_active = True, u_trial_start_date = None,
      u_trial_end_date = None, u_subscription_plan = ''gold'',
      u_subscription_status = ''trial'', u_subscription_end_date = None\<rparr>"

definition witness_account_row :: account_row where
  "witness_account_row =
     \<lparr>ar_id = 1, ar_user_id = 7, ar_name = ''rent'', ar_account_type = ''payable'',
      ar_amount = Some 120, ar_due_date = None, ar_status = Some ''pending'',
      ar_created_at = Some ''2024-05-01 09:00:00''\<rparr>"

definition witness_user_row :: user_row where
  "witness_user_row =
     \<lparr>ur_id = 7, ur_username = ''ana'', ur_email = ''ana@example.com'',
      ur_password_hash = ''pbkdf2'', ur_full_name = ''Ana Lima'', ur_phone = None,
      ur_created_at = Some ''2024-05-01 09:00:00'', ur_active = Some 1,
      ur_trial_start_date = Some ''2024-05-01 09:00:00'',
      ur_trial_end_date = Some ''2024-05-08T09:00:00'',
      ur_subscription_plan = Some ''trial'', ur_subscription_status = Some ''trial'',
      ur_subscription_end_date = None\<rparr>"

definition witness_db :: db where
  "witness_db =
     init_db\<lparr>users := [witness_user_row], users_seq := 7,
       accounts := [witness_account_row,
                    witness_account_row\<lparr>ar_id := 2, ar_amount := Some 30, ar_status := Some ''paid''\<rparr>,
                    witness_account_row\<lparr>ar_id := 3, ar_amount := None\<rparr>,
                    witness_account_row\<lparr>ar_id := 4, ar_amount := Some 5\<rparr>],
       accounts_seq := 4\<rparr>"

definition year_999_db :: db where
  "year_999_db =
     init_db\<lparr>transactions :=
        [\<lparr>tr_id = 1, tr_user_id = 7, tr_description = ''sale'', tr_amount = 10,
          tr_transaction_type = ''income'', tr_category = None,
          tr_date = Some \<lparr>d_year = 999, d_month = 5, d_day = 1\<rparr>,
          tr_created_at = None, tr_is_recurring = Some 0, tr_recurrence_type = None,
          tr_account_id = None\<rparr>],
        transactions_seq := 1\<rparr>"

definition feb_30_db :: db where
  "feb_30_db =
     year_999_db\<lparr>transactions :=
        map (\<lambda>r. r\<lparr>tr_date := Some \<lparr>d_year = 2024, d_month = 2, d_day = 30\<rparr>\<rparr>)
          (transactions year_999_db)\<rparr>"

definition may_2024_db :: db where
  "may_2024_db =
     init_db\<lparr>transactions :=
        [\<lparr>tr_id = 1, tr_user_id = 7, tr_description = ''sale'', tr_amount = 10,
          tr_transaction_type = ''income'', tr_category = None,
          tr_date = Some \<lparr>d_year = 2024, d_month = 5, d_day = 17\<rparr>,
          tr_created_at = None, tr_is_recurring = Some 0, tr_recurrence_type = None,
          tr_account_id = None\<rparr>,
         \<lparr>tr_id = 2, tr_user_id = 7, tr_description = ''rent'', tr_amount = 4,
          tr_transaction_type = ''expense'', tr_category = None,
          tr_date = Some \<lparr>d_year = 2024, d_month = 5, d_day = 2\<rparr>,
          tr_created_at = None, tr_is_recurring = Some 0, tr_recurrence_type = None,
          tr_account_id = None\<rparr>,
         \<lparr>tr_id = 3, tr_user_id = 7, tr_description = ''sale'', tr_amount = 3,
          tr_transaction_type = ''income'', tr_category = None,
          tr_date = Some \<lparr>d_year = 2024, d_month = 6, d_day = 1\<rparr>,
          tr_created_at = None, tr_is_recurring = Some 0, tr_recurrence_type = None,
          tr_account_id = None\<rparr>,
         \<lparr>tr_id = 4, tr_user_id = 8, tr_description = ''sale'', tr_amount = 100,
          tr_transaction_type = ''income'', tr_category = None,
          tr_date = Some \<lparr>d_year = 2024, d_month = 5, d_day = 3\<rparr>,
          tr_created_at = None, tr_is_recurring = Some 0, tr_recurrence_type = None,
          tr_account_id = None\<rparr>],
        transactions_seq := 4\<rparr>"

definition june_2024_noon :: wallclock where
  "june_2024_noon =
     \<lparr>w_year = 2024, w_month = 6, w_day = 1, w_hour = 12, w_minute = 0, w_second = 0,
      w_microsecond = 0\<rparr>"

definition may_8_2024_nine :: wallclock where
  "may_8_2024_nine =
     \<lparr>w_year = 2024, w_month = 5, w_day = 8, w_hour = 9, w_minute = 0, w_second = 0,
      w_microsecond = 0\<rparr>"

text \<open>\<^verbatim>\<open>Account()\<close>: every argument left at its default.\<close>

definition default_account :: account where
  "default_account =
     \<lparr>a_id = None, a_user_id = None, a_name = None, a_account_type = None, a_amount = 0,
      a_due_date = None, a_status = ''pending'', a_created_at = None\<rparr>"

definition new_transaction :: transaction where
  "new_transaction =
     \<lparr>t_id = None, t_user_id = Some 7, t_description = Some ''sale'', t_amount = 10,
      t_transaction_type = Some ''income'', t_category = Some ''vendas'',
      t_date = Some \<lparr>d_year = 2024, d_month = 5, d_day = 17\<rparr>, t_created_at = None,
      t_is_recurring = False, t_recurrence_type = None, t_account_id = None\<rparr>"

definition new_account :: account where
  "new_account =
     \<lparr>a_id = None, a_user_id = Some 7, a_name = Some ''rent'',
      a_account_type = Some ''payable'', a_amount = 120, a_due_date = Some ''2024-06-01'',
      a_status = ''pending'', a_created_at = None\<rparr>"

definition new_goal :: financial_goal where
  "new_goal =
     \<lparr>g_id = None, g_user_id = Some 7, g_title = Some ''reserve'', g_target_amount = 1000,
      g_current_amount = 250, g_target_date = None, g_created_at = None,
      g_is_completed = False\<rparr>"

definition stored_goal_row :: goal_row where
  "stored_goal_row =
     \<lparr>gr_id = 1, gr_user_id = 7, gr_title = ''reserve'', gr_target_amount = 1000,
      gr_current_amount = Some 250, gr_target_date = None,
      gr_created_at = Some ''2024-05-01 09:00:00'', gr_is_completed = Some 0\<rparr>"

definition stored_db :: db where
  "stored_db = may_2024_db\<lparr>accounts := accounts witness_db, accounts_seq := 4,
                 financial_goals := [stored_goal_row], financial_goals_seq := 1\<rparr>"

definition edited_transaction :: transaction where
  "edited_transaction =
     \<lparr>t_id = Some 2, t_user_id = Some 7, t_description = Some ''rent, May'', t_amount = 6,
      t_transaction_type = Some ''expense'', t_category = None,
      t_date = Some \<lparr>d_year = 2024, d_month = 5, d_day = 2\<rparr>, t_created_at = None,
      t_is_recurring = True, t_recurrence_type = Some ''monthly'', t_account_id = Some 1\<rparr>"

definition edited_account :: account where
  "edited_account =
     \<lparr>a_id = Some 2, a_user_id = Some 7, a_name = Some ''rent, paid'',
      a_account_type = Some ''payable'', a_amount = 31, a_due_date = None,
      a_status = ''paid'', a_created_at = Some ''2024-05-01 09:00:00''\<rparr>"

definition edited_goal :: financial_goal where
  "edited_goal =
     \<lparr>g_id = Some 1, g_user_id = Some 7, g_title = Some ''reserve'', g_target_amount = 1000,
      g_current_amount = 1000, g_target_date = None,
      g_created_at = Some ''2024-05-01 09:00:00'', g_is_completed = True\<rparr>"


section \<open>Properties\<close>

subsection \<open>Goal progress\<close>

text \<open>
  C2. \<^verbatim>\<open>get_progress_percentage\<close> always returns a number and never raises: \<open>0\<close>
  when the target is \<open>0\<close>, otherwise the smaller of \<open>100\<close> and
  \<open>current / target * 100\<close>; so the result is at most \<open>100\<close>.
\<close>

theorem goal_progress_capped:
  "\<exists>p. get_progress_percentage g = Inr p \<and> p \<le> 100 \<and>
       p = (if g_target_amount g = 0 then 0
            else min 100 (g_current_amount g / g_target_amount g * 100))"
  by (simp add: get_progress_percentage_def truediv_def)

subsection \<open>Plan features\<close>

lemma map_of_features:
  "map_of features k =
     (if k = ''trial'' then Some (snd (features ! 0))
      else if k = ''mei'' then Some (snd (features ! 1))
      else if k = ''professional'' then Some (snd (features ! 2))
      else if k = ''enterprise'' then Some (snd (features ! 3))
      else None)"
  by (simp add: features_def)

text \<open>
  C3. \<^verbatim>\<open>get_plan_features\<close> looks the plan up in the table keyed by
  \<^verbatim>\<open>trial\<close>, \<^verbatim>\<open>mei\<close>, \<^verbatim>\<open>professional\<close> and \<^verbatim>\<open>enterprise\<close>, each
  key giving its own feature record, and returns the trial record for every plan that is
  not a key.
\<close>

theorem plan_features_lookup:
  "get_plan_features (u\<lparr>u_subscription_plan := ''trial''\<rparr>) =
     Inr \<lparr>name = ''Teste Gr'' @ [CHR 0xC3, CHR 0xA1] @ ''tis'', transactions_limit = 10,
          reports = False, automation = False, multi_user = False\<rparr> \<and>
   get_plan_features (u\<lparr>u_subscription_plan := ''mei''\<rparr>) =
     Inr \<lparr>name = ''Plano MEI'', transactions_limit = 100,
          reports = True, automation = False, multi_user = False\<rparr> \<and>
   get_plan_features (u\<lparr>u_subscription_plan := ''professional''\<rparr>) =
     Inr \<lparr>name = ''Plano Profissional'', transactions_limit = 500,
          reports = True, automation = True, multi_user = False\<rparr> \<and>
   get_plan_features (u\<lparr>u_subscription_plan := ''enterprise''\<rparr>) =
     Inr \<lparr>name = ''Plano Empresarial'', transactions_limit = - 1,
          reports = True, automation = True, multi_user = True\<rparr> \<and>
   map fst features = [''trial'', ''mei'', ''professional'', ''enterprise''] \<and>
   (u_subscription_plan u \<notin> set (map fst features) \<longrightarrow>
      get_plan_features u = get_plan_features (u\<lparr>u_subscription_plan := ''trial''\<rparr>))"
  by (simp add: get_plan_features_def dict_getitem_def dict_get_def map_of_features)
     (simp add: features_def)

theorem plan_features_lookup_witness:
  "u_subscription_plan witness_user \<notin> set (map fst features) \<and>
   get_plan_features witness_user =
     Inr \<lparr>name = ''Teste Gr'' @ [CHR 0xC3, CHR 0xA1] @ ''tis'', transactions_limit = 10,
          reports = False, automation = False, multi_user = False\<rparr>"
  using plan_features_lookup [of witness_user]
  by (simp add: witness_user_def features_def)

subsection \<open>The trial gate without an end date\<close>

text \<open>
  C10. With no \<^verbatim>\<open>trial_end_date\<close>, \<^verbatim>\<open>is_trial_expired\<close> is \<^verbatim>\<open>False\<close>
  whatever the clock reads, and a user in status \<^verbatim>\<open>trial\<close> is reported active at
  every time.
\<close>

theorem no_trial_end_never_expires:
  "is_trial_expired utcnow (u\<lparr>u_trial_end_date := None\<rparr>) = Inr False \<and>
   is_subscription_active utcnow
     (u\<lparr>u_trial_end_date := None, u_subscription_status := ''trial''\<rparr>) = Inr (PyBool True)"
  by (simp add: is_trial_expired_def is_subscription_active_def)

subsection \<open>Lookups that miss\<close>






subsection \<open>Pending totals\<close>

lemma sum_list_map_filter_id:
  "sum_list (List.map_filter (\<lambda>v. v) vs) = sum_list (map float_or_zero vs)"
  by (induction vs) (auto simp: List.map_filter_simps float_or_zero_def split: option.splits)

lemma coalesce_sql_sum: "coalesce (sql_sum vs) 0 = sum_list (map float_or_zero vs)"
  unfolding sum_list_map_filter_id [symmetric]
  by (simp add: coalesce_def sql_sum_def split: list.splits)



subsection \<open>Monthly summary\<close>

lemma less_10_cases:
  "(k::nat) < 10 \<Longrightarrow>
     k = 0 \<or> k = 1 \<or> k = 2 \<or> k = 3 \<or> k = 4 \<or> k = 5 \<or> k = 6 \<or> k = 7 \<or> k = 8 \<or> k = 9"
  by arith

lemma digit_val_digit_char: "digit_val (digit_char n) = Some (n mod 10)"
proof -
  have "n mod 10 < 10" by simp
  from less_10_cases [OF this] show ?thesis
    by (elim disjE) (simp_all add: digit_char_def digit_val_def)
qed

lemma parse_digits_acc_append:
  "parse_digits_acc a (xs @ ys) =
     (case parse_digits_acc a xs of None \<Rightarrow> None | Some b \<Rightarrow> parse_digits_acc b ys)"
  by (induction xs arbitrary: a) (auto split: option.splits)

lemma parse_str_nat: "parse_digits_acc 0 (str_nat n) = Some n"
proof (induction n rule: str_nat.induct)
  case (1 n)
  show ?case
  proof (cases "n < 10")
    case True
    then show ?thesis
      by (subst str_nat.simps) (simp add: digit_val_digit_char)
  next
    case False
    with "1" have "parse_digits_acc 0 (str_nat (n div 10)) = Some (n div 10)" by simp
    with False show ?thesis
      by (subst str_nat.simps) (simp add: parse_digits_acc_append digit_val_digit_char)
  qed
qed

lemma digit_val_zero: "digit_val CHR ''0'' = Some 0"
  by (simp add: digit_val_def)

lemma parse_leading_zeros:
  "parse_digits_acc 0 (replicate k CHR ''0'' @ s) = parse_digits_acc 0 s"
  by (induction k) (simp_all add: digit_val_zero)

lemma parse_zfill: "parse_digits_acc 0 (zfill w n) = Some n"
  by (simp add: zfill_def parse_leading_zeros parse_str_nat)

lemma digit_val_minus: "digit_val CHR ''-'' = None"
  by (simp add: digit_val_def)

lemma parse_format_0d:
  "parse_digits_acc 0 (format_0d w i) = (if i < 0 then None else Some (nat i))"
  by (simp add: format_0d_def digit_val_minus parse_zfill)

lemma parse_str_int:
  "parse_digits_acc 0 (str_int i) = (if i < 0 then None else Some (nat i))"
  by (simp add: str_int_def digit_val_minus parse_str_nat)

lemma length_str_nat_ge: "10 ^ k \<le> n \<Longrightarrow> k < length (str_nat n)"
proof (induction k arbitrary: n)
  case 0
  then show ?case by (subst str_nat.simps) simp
next
  case (Suc k)
  then have "10 ^ k \<le> n div 10" by (simp add: less_eq_div_iff_mult_less_eq mult.commute)
  then have "k < length (str_nat (n div 10))" by (rule Suc.IH)
  moreover from Suc.prems have "\<not> n < 10"
    by (metis One_nat_def le_trans not_less one_le_numeral one_le_power power_Suc mult.right_neutral mult_le_mono2)
  ultimately show ?case by (subst str_nat.simps) simp
qed

lemma month_text_eq: "zfill 2 mo = format_0d 2 month \<longleftrightarrow> int mo = month"
proof
  assume "zfill 2 mo = format_0d 2 month"
  then have "parse_digits_acc 0 (zfill 2 mo) = parse_digits_acc 0 (format_0d 2 month)" by simp
  then show "int mo = month"
    by (simp add: parse_zfill parse_format_0d split: if_splits)
next
  assume "int mo = month"
  then show "zfill 2 mo = format_0d 2 month"
    by (auto simp: format_0d_def)
qed

lemma year_text_eq:
  assumes "1000 \<le> year"
  shows "zfill 4 y = str_int year \<longleftrightarrow> int y = year"
proof
  assume "zfill 4 y = str_int year"
  then have "parse_digits_acc 0 (zfill 4 y) = parse_digits_acc 0 (str_int year)" by simp
  then show "int y = year"
    by (simp add: parse_zfill parse_str_int split: if_splits)
next
  assume eq: "int y = year"
  with assms have "10 ^ 3 \<le> y" by simp
  then have "3 < length (str_nat y)" by (rule length_str_nat_ge)
  with eq assms show "zfill 4 y = str_int year"
    by (auto simp: zfill_def str_int_def)
qed

lemma calendar_date_shown:
  "calendar_date d \<Longrightarrow> readable_date d \<and> shown_date renormalizes d = d"
  by (auto simp: calendar_date_def readable_date_def shown_date_def renormalized_def
        days_in_month_def split: if_splits)

lemma monthly_rows_spec:
  assumes "1000 \<le> year"
    and "\<And>r dt. r \<in> set (transactions d) \<Longrightarrow> tr_date r = Some dt \<Longrightarrow> calendar_date dt"
  shows "monthly_rows renormalizes d user_id ty month year =
     filter (\<lambda>r. tr_user_id r = user_id \<and> tr_transaction_type r = ty \<and>
                  falls_in (tr_date r) month year) (transactions d)"
  unfolding monthly_rows_def
proof (rule filter_cong [OF refl])
  fix r
  assume "r \<in> set (transactions d)"
  then have "\<And>dt. tr_date r = Some dt \<Longrightarrow> calendar_date dt" by (rule assms(2))
  then show "(tr_user_id r = user_id \<and> tr_transaction_type r = ty \<and>
       strftime_m renormalizes (tr_date r) = Some (format_0d 2 month) \<and>
       strftime_Y renormalizes (tr_date r) = Some (str_int year)) =
      (tr_user_id r = user_id \<and> tr_transaction_type r = ty \<and> falls_in (tr_date r) month year)"
    by (cases "tr_date r")
       (auto simp: strftime_m_def strftime_Y_def falls_in_def month_text_eq
          year_text_eq [OF assms(1)] calendar_date_shown)
qed

lemma float_or_zero_Some: "float_or_zero (Some x) = x"
  by (simp add: float_or_zero_def)

text \<open>
  Where every stored date is a day of the calendar, the year asked for has at least four
  digits and the user's identifier fits 64 bits, \<^verbatim>\<open>get_monthly_summary\<close> returns the
  two sums the spec describes.
\<close>

lemma monthly_summary_four_digit_year:
  assumes "1000 \<le> year"
    and "\<And>r dt. r \<in> set (transactions d) \<Longrightarrow> tr_date r = Some dt \<Longrightarrow> calendar_date dt"
    and "int64 user_id"
  shows "get_monthly_summary renormalizes d user_id month year =
     Inr (monthly_total_spec d user_id ''income'' month year,
          monthly_total_spec d user_id ''expense'' month year)"
  using assms(3)
  by (simp add: get_monthly_summary_def cursor_execute_def bindable_def
        monthly_total_spec_def coalesce_sql_sum monthly_rows_spec [OF assms(1,2)] comp_def
        float_or_zero_Some)

lemma str_nat_999: "str_nat 999 = ''999''"
  by (simp add: str_nat.simps digit_char_def)

lemma str_nat_2024: "str_nat 2024 = ''2024''"
  by (simp add: str_nat.simps digit_char_def)

text \<open>
  C6 at the year 999. The store holds one income of 10 of user 7 dated 1 May 999
  (\<^verbatim>\<open>0999-05-01\<close>), so the claim's summary of May 999 is \<open>(10, 0)\<close>. The code
  returns \<open>(0, 0)\<close>, in either release of the store: the month is compared as the
  padded \<^verbatim>\<open>05\<close>, but the year as the unpadded \<^verbatim>\<open>999\<close>, which is never the
  \<^verbatim>\<open>0999\<close> that \<^verbatim>\<open>strftime('%Y', date)\<close> gives.
\<close>

theorem monthly_summary_misses_year_999:
  "get_monthly_summary True year_999_db 7 5 999 = Inr (0, 0) \<and>
   get_monthly_summary False year_999_db 7 5 999 = Inr (0, 0) \<and>
   monthly_total_spec year_999_db 7 ''income'' 5 999 = 10 \<and>
   strftime_Y True (Some \<lparr>d_year = 999, d_month = 5, d_day = 1\<rparr>) = Some ''0999'' \<and>
   strftime_m True (Some \<lparr>d_year = 999, d_month = 5, d_day = 1\<rparr>) = Some (format_0d 2 5) \<and>
   str_int 999 = ''999''"
  by (simp add: get_monthly_summary_def cursor_execute_def bindable_def int64_def
        monthly_rows_def monthly_total_spec_def
        year_999_db_def init_db_def strftime_m_def strftime_Y_def readable_date_def
        shown_date_def renormalized_def calendar_date_def
        days_in_month_def falls_in_def zfill_def format_0d_def str_int_def str_nat_999
        sql_sum_def coalesce_def List.map_filter_simps)

text \<open>
  The summary of May 2024 on a store of four transactions; a transaction dated 30 February
  2024, which the newer store counts in March and the older in February; and a user
  identifier beyond 64 bits.
\<close>

lemma monthly_summary_may_2024:
  "get_monthly_summary renormalizes may_2024_db 7 5 2024 = Inr (10, 4)"
proof -
  have year: "(1000::int) \<le> 2024"
    by simp
  have dates: "\<And>r dt. r \<in> set (transactions may_2024_db) \<Longrightarrow> tr_date r = Some dt \<Longrightarrow>
      calendar_date dt"
    by (auto simp: may_2024_db_def init_db_def calendar_date_def days_in_month_def)
  have user: "int64 7"
    by (simp add: int64_def)
  have "get_monthly_summary renormalizes may_2024_db 7 5 2024 =
      Inr (monthly_total_spec may_2024_db 7 ''income'' 5 2024,
           monthly_total_spec may_2024_db 7 ''expense'' 5 2024)"
    using year dates user by (rule monthly_summary_four_digit_year)
  then show ?thesis
    by (simp add: monthly_total_spec_def may_2024_db_def init_db_def falls_in_def
          calendar_date_def days_in_month_def)
qed

lemma monthly_summary_off_calendar_day:
  "get_monthly_summary True feb_30_db 7 3 2024 = Inr (10, 0) \<and>
   get_monthly_summary True feb_30_db 7 2 2024 = Inr (0, 0) \<and>
   get_monthly_summary False feb_30_db 7 2 2024 = Inr (10, 0) \<and>
   get_monthly_summary False feb_30_db 7 3 2024 = Inr (0, 0) \<and>
   get_monthly_summary True feb_30_db (2 ^ 63) 3 2024 = Inl OverflowError"
  by (simp add: get_monthly_summary_def cursor_execute_def bindable_def int64_def
        monthly_rows_def feb_30_db_def year_999_db_def
        init_db_def strftime_m_def strftime_Y_def readable_date_def shown_date_def
        renormalized_def days_in_month_def is_leap_def zfill_def format_0d_def str_int_def
        str_nat_2024 sql_sum_def coalesce_def List.map_filter_simps)
     (simp add: str_nat.simps digit_char_def)

subsection \<open>The gate on stored timestamps\<close>

lemma digit_val_chars:
  "digit_val CHR ''0'' = Some 0" "digit_val CHR ''1'' = Some 1" "digit_val CHR ''2'' = Some 2"
  "digit_val CHR ''3'' = Some 3" "digit_val CHR ''4'' = Some 4" "digit_val CHR ''5'' = Some 5"
  "digit_val CHR ''6'' = Some 6" "digit_val CHR ''7'' = Some 7" "digit_val CHR ''8'' = Some 8"
  "digit_val CHR ''9'' = Some 9" "digit_val CHR ''+'' = None" "digit_val CHR '':'' = None"
  by (simp_all add: digit_val_def)

lemma parse_date_2024_01_01: "parse_isoformat_date ''2024-01-01'' = Inr (2024, 1, 1)"
  by (simp add: parse_isoformat_date_def parse_digits_def digit_val_chars)

lemma parse_midnight: "parse_hh_mm_ss_ff ''00:00:00'' = Inr (0, 0, 0, 0)"
  by (simp add: parse_hh_mm_ss_ff_def digit_val_chars)

lemma parse_zero_offset: "parse_hh_mm_ss_ff ''00:00'' = Inr (0, 0, 0, 0)"
  by (simp add: parse_hh_mm_ss_ff_def digit_val_chars)

lemma parse_time_utc: "parse_isoformat_time ''00:00:00+00:00'' = Inr ((0, 0, 0, 0), Some 0)"
  by (simp add: parse_isoformat_time_def tz_sign_def parse_midnight parse_zero_offset micros_def)

lemma fromisoformat_utc_text:
  "fromisoformat ''2024-01-01T00:00:00+00:00'' =
     Inr \<lparr>clock = \<lparr>w_year = 2024, w_month = 1, w_day = 1, w_hour = 0, w_minute = 0,
                    w_second = 0, w_microsecond = 0\<rparr>, tzinfo = Some 0\<rparr>"
  by (simp add: fromisoformat_def parse_date_2024_01_01 parse_time_utc valid_wallclock_def
        days_in_month_def)

text \<open>
  C1 at a stored timestamp with the suffix \<^verbatim>\<open>Z\<close>, which the code rewrites to
  \<^verbatim>\<open>+00:00\<close> before parsing: the parsed value is aware, the clock reading is naive,
  and both \<^verbatim>\<open>is_trial_expired\<close> and \<^verbatim>\<open>is_subscription_active\<close> raise
  \<^verbatim>\<open>TypeError\<close> instead of returning the comparison, in status \<^verbatim>\<open>trial\<close>
  and in status \<^verbatim>\<open>active\<close> alike.
\<close>

theorem gate_raises_on_utc_suffix:
  "is_trial_expired june_2024_noon
     (witness_user\<lparr>u_trial_end_date := Some ''2024-01-01T00:00:00Z''\<rparr>) = Inl TypeError \<and>
   is_subscription_active june_2024_noon
     (witness_user\<lparr>u_trial_end_date := Some ''2024-01-01T00:00:00Z''\<rparr>) = Inl TypeError \<and>
   is_subscription_active june_2024_noon
     (witness_user\<lparr>u_subscription_status := ''active'',
        u_subscription_end_date := Some ''2024-01-01T00:00:00Z''\<rparr>) = Inl TypeError"
  by (simp add: is_trial_expired_def is_subscription_active_def witness_user_def
        fromisoformat_utc_text dt_gt_def dt_le_def)

subsection \<open>\<^verbatim>\<open>save\<close>: insert or update\<close>

lemma fold_max_ge:
  "(seq :: int) \<le> fold max ids seq \<and> (\<forall>x \<in> set ids. x \<le> fold max ids seq)"
proof (induction ids arbitrary: seq)
  case Nil
  then show ?case by simp
next
  case (Cons i ids)
  from Cons.IH [of "max i seq"] show ?case by auto
qed

lemma lastrowid_fresh: "lastrowid ids seq \<notin> set ids"
proof
  assume "lastrowid ids seq \<in> set ids"
  with fold_max_ge [of seq ids] have "lastrowid ids seq \<le> fold max ids seq" by blast
  then show False by (simp add: lastrowid_def)
qed

lemma Transaction_save_insert:
  assumes "\<not> truthy_int (t_id t)" "t_user_id t \<noteq> None" "t_description t \<noteq> None"
    "t_transaction_type t \<noteq> None"
  shows "Transaction_save ts d t =
     Inr (d\<lparr>transactions := transactions d @
               [\<lparr>tr_id = lastrowid (map tr_id (transactions d)) (transactions_seq d),
                 tr_user_id = the (t_user_id t), tr_description = the (t_description t),
                 tr_amount = t_amount t, tr_transaction_type = the (t_transaction_type t),
                 tr_category = t_category t, tr_date = t_date t, tr_created_at = Some ts,
                 tr_is_recurring = Some (int_of_bool (t_is_recurring t)),
                 tr_recurrence_type = t_recurrence_type t,
                 tr_account_id = t_account_id t\<rparr>],
             transactions_seq := lastrowid (map tr_id (transactions d)) (transactions_seq d)\<rparr>,
          t\<lparr>t_id := Some (lastrowid (map tr_id (transactions d)) (transactions_seq d))\<rparr>)"
  using assms
  by (auto simp: Transaction_save_def insert_into_transactions_def truthy_int_def Let_def
        split: option.splits)

lemma Transaction_save_update:
  assumes "truthy_int (t_id t)" "t_description t \<noteq> None" "t_transaction_type t \<noteq> None"
  shows "Transaction_save ts d t =
     Inr (d\<lparr>transactions :=
               map (\<lambda>r. if tr_id r = the (t_id t)
                         then r\<lparr>tr_description := the (t_description t),
                                tr_amount := t_amount t,
                                tr_transaction_type := the (t_transaction_type t),
                                tr_category := t_category t, tr_date := t_date t,
                                tr_is_recurring := Some (int_of_bool (t_is_recurring t)),
                                tr_recurrence_type := t_recurrence_type t,
                                tr_account_id := t_account_id t\<rparr>
                         else r) (transactions d)\<rparr>, t)"
  using assms
  by (auto simp: Transaction_save_def update_transactions_def truthy_int_def
        split: option.splits)

lemma Account_save_insert:
  assumes "\<not> truthy_int (a_id a)" "a_user_id a \<noteq> None" "a_name a \<noteq> None"
    "a_account_type a \<noteq> None"
  shows "Account_save ts d a =
     Inr (d\<lparr>accounts := accounts d @
               [\<lparr>ar_id = lastrowid (map ar_id (accounts d)) (accounts_seq d),
                 ar_user_id = the (a_user_id a), ar_name = the (a_name a),
                 ar_account_type = the (a_account_type a), ar_amount = Some (a_amount a),
                 ar_due_date = a_due_date a, ar_status = Some (a_status a),
                 ar_created_at = Some ts\<rparr>],
             accounts_seq := lastrowid (map ar_id (accounts d)) (accounts_seq d)\<rparr>,
          a\<lparr>a_id := Some (lastrowid (map ar_id (accounts d)) (accounts_seq d))\<rparr>)"
  using assms
  by (auto simp: Account_save_def insert_into_accounts_def truthy_int_def Let_def
        split: option.splits)

lemma Account_save_update:
  assumes "truthy_int (a_id a)" "a_name a \<noteq> None" "a_account_type a \<noteq> None"
  shows "Account_save ts d a =
     Inr (d\<lparr>accounts :=
               map (\<lambda>r. if ar_id r = the (a_id a)
                         then r\<lparr>ar_name := the (a_name a),
                                ar_account_type := the (a_account_type a),
                                ar_amount := Some (a_amount a), ar_due_date := a_due_date a,
                                ar_status := Some (a_status a)\<rparr>
                         else r) (accounts d)\<rparr>, a)"
  using assms
  by (auto simp: Account_save_def update_accounts_def truthy_int_def split: option.splits)

lemma FinancialGoal_save_insert:
  assumes "\<not> truthy_int (g_id g)" "g_user_id g \<noteq> None" "g_title g \<noteq> None"
  shows "FinancialGoal_save ts d g =
     Inr (d\<lparr>financial_goals := financial_goals d @
               [\<lparr>gr_id = lastrowid (map gr_id (financial_goals d)) (financial_goals_seq d),
                 gr_user_id = the (g_user_id g), gr_title = the (g_title g),
                 gr_target_amount = g_target_amount g,
                 gr_current_amount = Some (g_current_amount g),
                 gr_target_date = g_target_date g, gr_created_at = Some ts,
                 gr_is_completed = Some (int_of_bool (g_is_completed g))\<rparr>],
             financial_goals_seq :=
               lastrowid (map gr_id (financial_goals d)) (financial_goals_seq d)\<rparr>,
          g\<lparr>g_id := Some (lastrowid (map gr_id (financial_goals d)) (financial_goals_seq d))\<rparr>)"
  using assms
  by (auto simp: FinancialGoal_save_def insert_into_financial_goals_def truthy_int_def Let_def
        split: option.splits)

lemma FinancialGoal_save_update:
  assumes "truthy_int (g_id g)" "g_title g \<noteq> None"
  shows "FinancialGoal_save ts d g =
     Inr (d\<lparr>financial_goals :=
               map (\<lambda>r. if gr_id r = the (g_id g)
                         then r\<lparr>gr_title := the (g_title g),
                                gr_target_amount := g_target_amount g,
                                gr_current_amount := Some (g_current_amount g),
                                gr_target_date := g_target_date g,
                                gr_is_completed := Some (int_of_bool (g_is_completed g))\<rparr>
                         else r) (financial_goals d)\<rparr>, g)"
  using assms
  by (auto simp: FinancialGoal_save_def update_financial_goals_def truthy_int_def
        split: option.splits)

lemma call_Transaction_save_insert:
  assumes "\<not> truthy_int (t_id t)" "bindable (t_user_id t)" "bindable (t_account_id t)"
    "int64 (lastrowid (map tr_id (transactions d)) (transactions_seq d))"
  shows "call_Transaction_save ts d t = Transaction_save ts d t"
  using assms by (simp add: call_Transaction_save_def cursor_execute_def)

lemma call_Transaction_save_update:
  assumes "truthy_int (t_id t)" "bindable (t_id t)" "bindable (t_account_id t)"
  shows "call_Transaction_save ts d t = Transaction_save ts d t"
  using assms by (simp add: call_Transaction_save_def cursor_execute_def)

lemma call_Account_save_insert:
  assumes "\<not> truthy_int (a_id a)" "bindable (a_user_id a)"
    "int64 (lastrowid (map ar_id (accounts d)) (accounts_seq d))"
  shows "call_Account_save ts d a = Account_save ts d a"
  using assms by (simp add: call_Account_save_def cursor_execute_def)

lemma call_Account_save_update:
  assumes "truthy_int (a_id a)" "bindable (a_id a)"
  shows "call_Account_save ts d a = Account_save ts d a"
  using assms by (simp add: call_Account_save_def cursor_execute_def)

lemma call_FinancialGoal_save_insert:
  assumes "\<not> truthy_int (g_id g)" "bindable (g_user_id g)"
    "int64 (lastrowid (map gr_id (financial_goals d)) (financial_goals_seq d))"
  shows "call_FinancialGoal_save ts d g = FinancialGoal_save ts d g"
  using assms by (simp add: call_FinancialGoal_save_def cursor_execute_def)

lemma call_FinancialGoal_save_update:
  assumes "truthy_int (g_id g)" "bindable (g_id g)"
  shows "call_FinancialGoal_save ts d g = FinancialGoal_save ts d g"
  using assms by (simp add: call_FinancialGoal_save_def cursor_execute_def)

text \<open>
  C4, for records the store accepts. For transactions, accounts and goals alike,
  \<^verbatim>\<open>save\<close> on a record without an identifier (\<^verbatim>\<open>None\<close>, or the falsy \<open>0\<close>)
  appends one row under a key no row of the table has, and returns the record with that
  key as its identifier; on a record with an identifier it rewrites the mutable columns
  of the rows with that identifier, leaves \<^verbatim>\<open>id\<close>, \<^verbatim>\<open>user_id\<close>,
  \<^verbatim>\<open>created_at\<close> and every other row as they were, and returns the record itself.
  The store accepts the record when the columns that are \<^verbatim>\<open>NOT NULL\<close> are given,
  the integers it binds fit 64 bits and, for an insert, the table has a key left.
\<close>

theorem save_call_inserts_or_updates:
  "(\<not> truthy_int (t_id t) \<and> t_user_id t \<noteq> None \<and> t_description t \<noteq> None \<and>
    t_transaction_type t \<noteq> None \<and> bindable (t_user_id t) \<and> bindable (t_account_id t) \<and>
    int64 (lastrowid (map tr_id (transactions d)) (transactions_seq d)) \<longrightarrow>
      lastrowid (map tr_id (transactions d)) (transactions_seq d) \<notin>
        set (map tr_id (transactions d)) \<and>
      call_Transaction_save ts d t =
        Inr (d\<lparr>transactions := transactions d @
                  [\<lparr>tr_id = lastrowid (map tr_id (transactions d)) (transactions_seq d),
                    tr_user_id = the (t_user_id t), tr_description = the (t_description t),
                    tr_amount = t_amount t, tr_transaction_type = the (t_transaction_type t),
                    tr_category = t_category t, tr_date = t_date t,
                    tr_created_at = Some ts,
                    tr_is_recurring = Some (int_of_bool (t_is_recurring t)),
                    tr_recurrence_type = t_recurrence_type t,
                    tr_account_id = t_account_id t\<rparr>],
                transactions_seq :=
                  lastrowid (map tr_id (transactions d)) (transactions_seq d)\<rparr>,
             t\<lparr>t_id := Some (lastrowid (map tr_id (transactions d)) (transactions_seq d))\<rparr>)) \<and>
   (truthy_int (t_id t') \<and> t_description t' \<noteq> None \<and> t_transaction_type t' \<noteq> None \<and>
    bindable (t_id t') \<and> bindable (t_account_id t') \<longrightarrow>
      call_Transaction_save ts d t' =
        Inr (d\<lparr>transactions :=
                  map (\<lambda>r. if tr_id r = the (t_id t')
                            then r\<lparr>tr_description := the (t_description t'),
                                   tr_amount := t_amount t',
                                   tr_transaction_type := the (t_transaction_type t'),
                                   tr_category := t_category t', tr_date := t_date t',
                                   tr_is_recurring := Some (int_of_bool (t_is_recurring t')),
                                   tr_recurrence_type := t_recurrence_type t',
                                   tr_account_id := t_account_id t'\<rparr>
                            else r) (transactions d)\<rparr>, t')) \<and>
   (\<not> truthy_int (a_id a) \<and> a_user_id a \<noteq> None \<and> a_name a \<noteq> None \<and>
    a_account_type a \<noteq> None \<and> bindable (a_user_id a) \<and>
    int64 (lastrowid (map ar_id (accounts d)) (accounts_seq d)) \<longrightarrow>
      lastrowid (map ar_id (accounts d)) (accounts_seq d) \<notin> set (map ar_id (accounts d)) \<and>
      call_Account_save ts d a =
        Inr (d\<lparr>accounts := accounts d @
                  [\<lparr>ar_id = lastrowid (map ar_id (accounts d)) (accounts_seq d),
                    ar_user_id = the (a_user_id a), ar_name = the (a_name a),
                    ar_account_type = the (a_account_type a), ar_amount = Some (a_amount a),
                    ar_due_date = a_due_date a, ar_status = Some (a_status a),
                    ar_created_at = Some ts\<rparr>],
                accounts_seq := lastrowid (map ar_id (accounts d)) (accounts_seq d)\<rparr>,
             a\<lparr>a_id := Some (lastrowid (map ar_id (accounts d)) (accounts_seq d))\<rparr>)) \<and>
   (truthy_int (a_id a') \<and> a_name a' \<noteq> None \<and> a_account_type a' \<noteq> None \<and>
    bindable (a_id a') \<longrightarrow>
      call_Account_save ts d a' =
        Inr (d\<lparr>accounts :=
                  map (\<lambda>r. if ar_id r = the (a_id a')
                            then r\<lparr>ar_name := the (a_name a'),
                                   ar_account_type := the (a_account_type a'),
                                   ar_amount := Some (a_amount a'),
                                   ar_due_date := a_due_date a',
                                   ar_status := Some (a_status a')\<rparr>
                            else r) (accounts d)\<rparr>, a')) \<and>
   (\<not> truthy_int (g_id g) \<and> g_user_id g \<noteq> None \<and> g_title g \<noteq> None \<and>
    bindable (g_user_id g) \<and>
    int64 (lastrowid (map gr_id (financial_goals d)) (financial_goals_seq d)) \<longrightarrow>
      lastrowid (map gr_id (financial_goals d)) (financial_goals_seq d) \<notin>
        set (map gr_id (financial_goals d)) \<and>
      call_FinancialGoal_save ts d g =
        Inr (d\<lparr>financial_goals := financial_goals d @
                  [\<lparr>gr_id = lastrowid (map gr_id (financial_goals d)) (financial_goals_seq d),
                    gr_user_id = the (g_user_id g), gr_title = the (g_title g),
                    gr_target_amount = g_target_amount g,
                    gr_current_amount = Some (g_current_amount g),
                    gr_target_date = g_target_date g, gr_created_at = Some ts,
                    gr_is_completed = Some (int_of_bool (g_is_completed g))\<rparr>],
                financial_goals_seq :=
                  lastrowid (map gr_id (financial_goals d)) (financial_goals_seq d)\<rparr>,
             g\<lparr>g_id :=
                 Some (lastrowid (map gr_id (financial_goals d)) (financial_goals_seq d))\<rparr>)) \<and>
   (truthy_int (g_id g') \<and> g_title g' \<noteq> None \<and> bindable (g_id g') \<longrightarrow>
      call_FinancialGoal_save ts d g' =
        Inr (d\<lparr>financial_goals :=
                  map (\<lambda>r. if gr_id r = the (g_id g')
                            then r\<lparr>gr_title := the (g_title g'),
                                   gr_target_amount := g_target_amount g',
                                   gr_current_amount := Some (g_current_amount g'),
                                   gr_target_date := g_target_date g',
                                   gr_is_completed := Some (int_of_bool (g_is_completed g'))\<rparr>
                            else r) (financial_goals d)\<rparr>, g'))"
proof (intro conjI impI; elim conjE)
  assume h: "\<not> truthy_int (t_id t)" "t_user_id t \<noteq> None" "t_description t \<noteq> None"
    "t_transaction_type t \<noteq> None" "bindable (t_user_id t)" "bindable (t_account_id t)"
    "int64 (lastrowid (map tr_id (transactions d)) (transactions_seq d))"
  show "call_Transaction_save ts d t =
      Inr (d\<lparr>transactions := transactions d @
                [\<lparr>tr_id = lastrowid (map tr_id (transactions d)) (transactions_seq d),
                  tr_user_id = the (t_user_id t), tr_description = the (t_description t),
                  tr_amount = t_amount t, tr_transaction_type = the (t_transaction_type t),
                  tr_category = t_category t, tr_date = t_date t,
                  tr_created_at = Some ts,
                  tr_is_recurring = Some (int_of_bool (t_is_recurring t)),
                  tr_recurrence_type = t_recurrence_type t,
                  tr_account_id = t_account_id t\<rparr>],
              transactions_seq :=
                lastrowid (map tr_id (transactions d)) (transactions_seq d)\<rparr>,
           t\<lparr>t_id := Some (lastrowid (map tr_id (transactions d)) (transactions_seq d))\<rparr>)"
    unfolding call_Transaction_save_insert [OF h(1,5,6,7)] by (rule Transaction_save_insert [OF h(1-4)])
next
  assume h: "truthy_int (t_id t')" "t_description t' \<noteq> None" "t_transaction_type t' \<noteq> None"
    "bindable (t_id t')" "bindable (t_account_id t')"
  show "call_Transaction_save ts d t' =
      Inr (d\<lparr>transactions :=
                map (\<lambda>r. if tr_id r = the (t_id t')
                          then r\<lparr>tr_description := the (t_description t'),
                                 tr_amount := t_amount t',
                                 tr_transaction_type := the (t_transaction_type t'),
                                 tr_category := t_category t', tr_date := t_date t',
                                 tr_is_recurring := Some (int_of_bool (t_is_recurring t')),
                                 tr_recurrence_type := t_recurrence_type t',
                                 tr_account_id := t_account_id t'\<rparr>
                          else r) (transactions d)\<rparr>, t')"
    unfolding call_Transaction_save_update [OF h(1,4,5)] by (rule Transaction_save_update [OF h(1-3)])
next
  assume h: "\<not> truthy_int (a_id a)" "a_user_id a \<noteq> None" "a_name a \<noteq> None"
    "a_account_type a \<noteq> None" "bindable (a_user_id a)"
    "int64 (lastrowid (map ar_id (accounts d)) (accounts_seq d))"
  show "call_Account_save ts d a =
      Inr (d\<lparr>accounts := accounts d @
                [\<lparr>ar_id = lastrowid (map ar_id (accounts d)) (accounts_seq d),
                  ar_user_id = the (a_user_id a), ar_name = the (a_name a),
                  ar_account_type = the (a_account_type a), ar_amount = Some (a_amount a),
                  ar_due_date = a_due_date a, ar_status = Some (a_status a),
                  ar_created_at = Some ts\<rparr>],
              accounts_seq := lastrowid (map ar_id (accounts d)) (accounts_seq d)\<rparr>,
           a\<lparr>a_id := Some (lastrowid (map ar_id (accounts d)) (accounts_seq d))\<rparr>)"
    unfolding call_Account_save_insert [OF h(1,5,6)] by (rule Account_save_insert [OF h(1-4)])
next
  assume h: "truthy_int (a_id a')" "a_name a' \<noteq> None" "a_account_type a' \<noteq> None"
    "bindable (a_id a')"
  show "call_Account_save ts d a' =
      Inr (d\<lparr>accounts :=
                map (\<lambda>r. if ar_id r = the (a_id a')
                          then r\<lparr>ar_name := the (a_name a'),
                                 ar_account_type := the (a_account_type a'),
                                 ar_amount := Some (a_amount a'),
                                 ar_due_date := a_due_date a',
                                 ar_status := Some (a_status a')\<rparr>
                          else r) (accounts d)\<rparr>, a')"
    unfolding call_Account_save_update [OF h(1,4)] by (rule Account_save_update [OF h(1-3)])
next
  assume h: "\<not> truthy_int (g_id g)" "g_user_id g \<noteq> None" "g_title g \<noteq> None"
    "bindable (g_user_id g)"
    "int64 (lastrowid (map gr_id (financial_goals d)) (financial_goals_seq d))"
  show "call_FinancialGoal_save ts d g =
      Inr (d\<lparr>financial_goals := financial_goals d @
                [\<lparr>gr_id = lastrowid (map gr_id (financial_goals d)) (financial_goals_seq d),
                  gr_user_id = the (g_user_id g), gr_title = the (g_title g),
                  gr_target_amount = g_target_amount g,
                  gr_current_amount = Some (g_current_amount g),
                  gr_target_date = g_target_date g, gr_created_at = Some ts,
                  gr_is_completed = Some (int_of_bool (g_is_completed g))\<rparr>],
              financial_goals_seq :=
                lastrowid (map gr_id (financial_goals d)) (financial_goals_seq d)\<rparr>,
           g\<lparr>g_id :=
               Some (lastrowid (map gr_id (financial_goals d)) (financial_goals_seq d))\<rparr>)"
    unfolding call_FinancialGoal_save_insert [OF h(1,4,5)] by (rule FinancialGoal_save_insert [OF h(1-3)])
next
  assume h: "truthy_int (g_id g')" "g_title g' \<noteq> None" "bindable (g_id g')"
  show "call_FinancialGoal_save ts d g' =
      Inr (d\<lparr>financial_goals :=
                map (\<lambda>r. if gr_id r = the (g_id g')
                          then r\<lparr>gr_title := the (g_title g'),
                                 gr_target_amount := g_target_amount g',
                                 gr_current_amount := Some (g_current_amount g'),
                                 gr_target_date := g_target_date g',
                                 gr_is_completed := Some (int_of_bool (g_is_completed g'))\<rparr>
                          else r) (financial_goals d)\<rparr>, g')"
    unfolding call_FinancialGoal_save_update [OF h(1,3)] by (rule FinancialGoal_save_update [OF h(1,2)])
qed (rule lastrowid_fresh)+

text \<open>
  C4 as stated, for every record, fails. \<^verbatim>\<open>Account()\<close> has no owner, name or type:
  \<^verbatim>\<open>save\<close> raises \<^verbatim>\<open>IntegrityError\<close>, inserts nothing and returns no record;
  so it does for an update that clears the name of a stored row. An account whose owner
  is \<^verbatim>\<open>2^63\<close> is not saved either: the driver raises \<^verbatim>\<open>OverflowError\<close>.
\<close>

theorem save_refused_counterexample:
  "\<not> truthy_int (a_id default_account) \<and>
   call_Account_save ''2024-05-20 10:00:00'' stored_db default_account = Inl IntegrityError \<and>
   truthy_int (a_id (edited_account\<lparr>a_name := None\<rparr>)) \<and>
   call_Account_save ''2024-05-20 10:00:00'' stored_db (edited_account\<lparr>a_name := None\<rparr>) =
     Inl IntegrityError \<and>
   call_Account_save ''2024-05-20 10:00:00'' stored_db (new_account\<lparr>a_user_id := Some (2 ^ 63)\<rparr>) =
     Inl OverflowError"
  by (simp add: call_Account_save_def cursor_execute_def bindable_def int64_def
        Account_save_def insert_into_accounts_def update_accounts_def default_account_def
        edited_account_def new_account_def truthy_int_def stored_db_def may_2024_db_def
        witness_db_def witness_account_row_def init_db_def lastrowid_def)

theorem save_call_inserts_or_updates_witness:
  "(\<not> truthy_int (t_id new_transaction) \<and> t_user_id new_transaction \<noteq> None \<and>
    t_description new_transaction \<noteq> None \<and> t_transaction_type new_transaction \<noteq> None \<and>
    bindable (t_user_id new_transaction) \<and> bindable (t_account_id new_transaction) \<and>
    int64 (lastrowid (map tr_id (transactions stored_db)) (transactions_seq stored_db))) \<and>
   (truthy_int (t_id edited_transaction) \<and> t_description edited_transaction \<noteq> None \<and>
    t_transaction_type edited_transaction \<noteq> None \<and> bindable (t_id edited_transaction) \<and>
    bindable (t_account_id edited_transaction)) \<and>
   (\<not> truthy_int (a_id new_account) \<and> a_user_id new_account \<noteq> None \<and>
    a_name new_account \<noteq> None \<and> a_account_type new_account \<noteq> None \<and>
    bindable (a_user_id new_account) \<and>
    int64 (lastrowid (map ar_id (accounts stored_db)) (accounts_seq stored_db))) \<and>
   (truthy_int (a_id edited_account) \<and> a_name edited_account \<noteq> None \<and>
    a_account_type edited_account \<noteq> None \<and> bindable (a_id edited_account)) \<and>
   (\<not> truthy_int (g_id new_goal) \<and> g_user_id new_goal \<noteq> None \<and> g_title new_goal \<noteq> None \<and>
    bindable (g_user_id new_goal) \<and>
    int64 (lastrowid (map gr_id (financial_goals stored_db)) (financial_goals_seq stored_db))) \<and>
   (truthy_int (g_id edited_goal) \<and> g_title edited_goal \<noteq> None \<and>
    bindable (g_id edited_goal)) \<and>
   map_sum id (\<lambda>(d', r). (map tr_id (transactions d'), t_id r))
     (call_Transaction_save ''2024-05-20 10:00:00'' stored_db new_transaction) =
     Inr ([1, 2, 3, 4, 5], Some 5) \<and>
   map_sum id (\<lambda>(d', r). (map tr_amount (transactions d'), r = edited_transaction))
     (call_Transaction_save ''2024-05-20 10:00:00'' stored_db edited_transaction) =
     Inr ([10, 6, 3, 100], True) \<and>
   map_sum id (\<lambda>(d', r). (map ar_id (accounts d'), a_id r))
     (call_Account_save ''2024-05-20 10:00:00'' stored_db new_account) =
     Inr ([1, 2, 3, 4, 5], Some 5) \<and>
   map_sum id (\<lambda>(d', r). (map ar_amount (accounts d'), r = edited_account))
     (call_Account_save ''2024-05-20 10:00:00'' stored_db edited_account) =
     Inr ([Some 120, Some 31, None, Some 5], True) \<and>
   map_sum id (\<lambda>(d', r). (map gr_id (financial_goals d'), g_id r))
     (call_FinancialGoal_save ''2024-05-20 10:00:00'' stored_db new_goal) =
     Inr ([1, 2], Some 2) \<and>
   map_sum id (\<lambda>(d', r). (map gr_is_completed (financial_goals d'), r = edited_goal))
     (call_FinancialGoal_save ''2024-05-20 10:00:00'' stored_db edited_goal) =
     Inr ([Some 1], True)"
  using save_call_inserts_or_updates [where d = stored_db and ts = "''2024-05-20 10:00:00''"
          and t = new_transaction and t' = edited_transaction
          and a = new_account and a' = edited_account
          and g = new_goal and g' = edited_goal]
  by (simp add: truthy_int_def bindable_def int64_def new_transaction_def
        edited_transaction_def new_account_def
        edited_account_def new_goal_def edited_goal_def stored_db_def may_2024_db_def
        witness_db_def witness_account_row_def stored_goal_row_def init_db_def
        lastrowid_def int_of_bool_def)

subsection \<open>Saving an account and reloading it\<close>









subsection \<open>Seven days later\<close>










subsection \<open>Writing a timestamp and reading it back\<close>

lemma length_str_nat_le: "n < 10 ^ Suc k \<Longrightarrow> length (str_nat n) \<le> Suc k"
proof (induction k arbitrary: n)
  case 0
  then show ?case by (subst str_nat.simps) simp
next
  case (Suc k)
  show ?case
  proof (cases "n < 10")
    case True
    then show ?thesis by (subst str_nat.simps) simp
  next
    case False
    from Suc.prems have "n div 10 < 10 ^ Suc k" by (simp add: div_less_iff_less_mult mult.commute)
    then have "length (str_nat (n div 10)) \<le> Suc k" by (rule Suc.IH)
    with False show ?thesis by (subst str_nat.simps) simp
  qed
qed

lemma length_zfill: "n < 10 ^ Suc k \<Longrightarrow> length (zfill (Suc k) n) = Suc k"
  using length_str_nat_le [of n k] by (simp add: zfill_def)

lemma str_nat_not_empty: "str_nat n \<noteq> []"
  by (subst str_nat.simps) simp

lemma zfill_not_empty: "zfill w n \<noteq> []"
  by (simp add: zfill_def str_nat_not_empty)

lemma str_nat_digits: "c \<in> set (str_nat n) \<Longrightarrow> digit_val c \<noteq> None"
proof (induction n rule: str_nat.induct)
  case (1 n)
  show ?case
  proof (cases "n < 10")
    case True
    with "1.prems" show ?thesis
      by (subst (asm) str_nat.simps) (simp add: digit_val_digit_char)
  next
    case False
    with "1.prems" have "c \<in> set (str_nat (n div 10)) \<or> c = digit_char (n mod 10)"
      by (subst (asm) str_nat.simps) auto
    with False "1.IH" show ?thesis
      by (auto simp: digit_val_digit_char)
  qed
qed

lemma zfill_digits: "c \<in> set (zfill w n) \<Longrightarrow> digit_val c \<noteq> None"
  by (auto simp: zfill_def digit_val_zero dest: str_nat_digits)

lemma not_digit_not_in_zfill: "digit_val c = None \<Longrightarrow> c \<notin> set (zfill w n)"
  using zfill_digits by blast

lemma digit_val_marks:
  "digit_val CHR ''-'' = None" "digit_val CHR ''+'' = None" "digit_val CHR ''Z'' = None"
  "digit_val CHR '':'' = None" "digit_val CHR ''.'' = None" "digit_val CHR ''T'' = None"
  by (simp_all add: digit_val_def)

lemma parse_digits_zfill: "parse_digits (zfill w n) = Some n"
  by (simp add: parse_digits_def zfill_not_empty parse_zfill)

lemma parse2_zfill:
  assumes "n < 100"
  shows "parse2 (zfill 2 n @ rest) = Some (n, rest)"
proof -
  from assms have "length (zfill (Suc 1) n) = Suc 1" by (intro length_zfill) simp
  then obtain a b where ab: "zfill 2 n = [a, b]"
    by (auto simp: length_Suc_conv numeral_2_eq_2)
  from parse_zfill [of 2 n] ab have "parse_digits_acc 0 [a, b] = Some n" by simp
  with ab show ?thesis by (auto split: option.splits)
qed

lemma str_replace_absent: "c \<notin> set s \<Longrightarrow> str_replace c t s = s"
  by (induction s) auto

lemma isoformat_parts:
  assumes "valid_wallclock w"
  shows "take 10 (isoformat w) =
           zfill 4 (w_year w) @ ''-'' @ zfill 2 (w_month w) @ ''-'' @ zfill 2 (w_day w)"
    and "drop 11 (isoformat w) =
           zfill 2 (w_hour w) @ '':'' @ zfill 2 (w_minute w) @ '':'' @ zfill 2 (w_second w) @
           (if w_microsecond w = 0 then [] else ''.'' @ zfill 6 (w_microsecond w))"
proof -
  from assms have "length (zfill (Suc 3) (w_year w)) = Suc 3"
    "length (zfill (Suc 1) (w_month w)) = Suc 1" "length (zfill (Suc 1) (w_day w)) = Suc 1"
    by (intro length_zfill; simp add: valid_wallclock_def days_in_month_def split: if_splits)+
  then have len: "length (zfill 4 (w_year w)) = 4" "length (zfill 2 (w_month w)) = 2"
    "length (zfill 2 (w_day w)) = 2"
    by (simp_all add: numeral_eq_Suc)
  from len show "take 10 (isoformat w) =
           zfill 4 (w_year w) @ ''-'' @ zfill 2 (w_month w) @ ''-'' @ zfill 2 (w_day w)"
    by (simp add: isoformat_def)
  from len show "drop 11 (isoformat w) =
           zfill 2 (w_hour w) @ '':'' @ zfill 2 (w_minute w) @ '':'' @ zfill 2 (w_second w) @
           (if w_microsecond w = 0 then [] else ''.'' @ zfill 6 (w_microsecond w))"
    by (simp add: isoformat_def)
qed

lemma parse_written_date:
  assumes "y < 10000" "m < 100" "dd < 100"
  shows "parse_isoformat_date (zfill 4 y @ ''-'' @ zfill 2 m @ ''-'' @ zfill 2 dd) =
           Inr (y, m, dd)"
proof -
  from assms have "length (zfill (Suc 3) y) = Suc 3" "length (zfill (Suc 1) m) = Suc 1"
    "length (zfill (Suc 1) dd) = Suc 1"
    by (intro length_zfill; simp)+
  then have len: "length (zfill 4 y) = 4" "length (zfill 2 m) = 2" "length (zfill 2 dd) = 2"
    by (simp_all add: numeral_eq_Suc)
  then show ?thesis
    by (simp add: parse_isoformat_date_def parse_digits_zfill nth_append)
qed

lemma parse_written_clock:
  assumes "h < 100" "mi < 100" "s < 100" "us < 1000000"
  shows "parse_hh_mm_ss_ff (zfill 2 h @ '':'' @ zfill 2 mi @ '':'' @ zfill 2 s @
           (if us = 0 then [] else ''.'' @ zfill 6 us)) = Inr (h, mi, s, us)"
proof -
  from assms(4) have "length (zfill (Suc 5) us) = Suc 5" by (intro length_zfill) simp
  then have "length (zfill 6 us) = 6" by (simp add: numeral_eq_Suc)
  then have "parse_fraction (zfill 6 us) = Inr us"
    by (simp add: parse_fraction_def parse_digits_zfill)
  with assms show ?thesis
    by (simp add: parse_hh_mm_ss_ff_def parse2_zfill)
qed

lemma written_clock_marks:
  "tz_sign (zfill 2 h @ '':'' @ zfill 2 mi @ '':'' @ zfill 2 s @
      (if us = 0 then [] else ''.'' @ zfill 6 us)) = None"
  by (simp add: tz_sign_def not_digit_not_in_zfill digit_val_marks)

lemma parse_written_time:
  assumes "h < 100" "mi < 100" "s < 100" "us < 1000000"
  shows "parse_isoformat_time (zfill 2 h @ '':'' @ zfill 2 mi @ '':'' @ zfill 2 s @
           (if us = 0 then [] else ''.'' @ zfill 6 us)) = Inr ((h, mi, s, us), None)"
proof -
  from assms(1) have "length (zfill (Suc 1) h) = Suc 1" by (intro length_zfill) simp
  then have "2 \<le> length (zfill 2 h @ '':'' @ zfill 2 mi @ '':'' @ zfill 2 s @
           (if us = 0 then [] else ''.'' @ zfill 6 us))"
    by (simp add: numeral_eq_Suc)
  then show ?thesis
    unfolding parse_isoformat_time_def written_clock_marks parse_written_clock [OF assms]
    by simp
qed

lemma isoformat_no_Z: "CHR ''Z'' \<notin> set (isoformat w)"
  by (simp add: isoformat_def not_digit_not_in_zfill digit_val_marks)

lemma wallclock_eta:
  "\<lparr>w_year = w_year w, w_month = w_month w, w_day = w_day w, w_hour = w_hour w,
    w_minute = w_minute w, w_second = w_second w, w_microsecond = w_microsecond w\<rparr> = w"
  by (cases w) simp

lemma fromisoformat_isoformat:
  assumes "valid_wallclock w"
  shows "fromisoformat (str_replace CHR ''Z'' ''+00:00'' (isoformat w)) =
           Inr \<lparr>clock = w, tzinfo = None\<rparr>"
proof -
  from assms have bounds: "w_year w < 10000" "w_month w < 100" "w_day w < 100"
    "w_hour w < 100" "w_minute w < 100" "w_second w < 100" "w_microsecond w < 1000000"
    by (simp_all add: valid_wallclock_def days_in_month_def split: if_splits)
  have time_text: "drop 11 (isoformat w) \<noteq> []"
    unfolding isoformat_parts(2) [OF assms] by (simp add: zfill_not_empty)
  have date: "parse_isoformat_date (take 10 (isoformat w)) =
      Inr (w_year w, w_month w, w_day w)"
    unfolding isoformat_parts(1) [OF assms] by (rule parse_written_date [OF bounds(1-3)])
  have time: "parse_isoformat_time (drop 11 (isoformat w)) =
      Inr ((w_hour w, w_minute w, w_second w, w_microsecond w), None)"
    unfolding isoformat_parts(2) [OF assms] by (rule parse_written_time [OF bounds(4-7)])
  show ?thesis
    unfolding str_replace_absent [OF isoformat_no_Z]
    using assms time_text by (simp add: fromisoformat_def date time Let_def wallclock_eta)
qed

subsection \<open>The gate on timestamps the application writes\<close>

text \<open>
  The gate on an end date written by \<^verbatim>\<open>isoformat\<close> from a naive datetime \<open>e\<close>,
  as \<^verbatim>\<open>User.create\<close> writes \<^verbatim>\<open>trial_end_date\<close>: the trial is expired exactly
  when the clock reads strictly later than \<open>e\<close>, a trial user is active exactly when it
  does not, and a user of any other status is active exactly when the status is
  \<^verbatim>\<open>active\<close>, an end date is stored and the clock reads \<open>e\<close> or earlier.
\<close>

theorem gate_on_written_timestamp:
  "valid_wallclock e \<longrightarrow>
     is_trial_expired utcnow (u\<lparr>u_trial_end_date := Some (isoformat e)\<rparr>) =
       Inr (sort_key e < sort_key utcnow) \<and>
     is_subscription_active utcnow
       (u\<lparr>u_subscription_status := ''trial'', u_trial_end_date := Some (isoformat e)\<rparr>) =
       Inr (PyBool (sort_key utcnow \<le> sort_key e)) \<and>
     (st \<noteq> ''trial'' \<longrightarrow>
        is_subscription_active utcnow
          (u\<lparr>u_subscription_status := st, u_subscription_end_date := Some (isoformat e)\<rparr>) =
          Inr (PyBool (st = ''active'' \<and> sort_key utcnow \<le> sort_key e)) \<and>
        is_subscription_active utcnow
          (u\<lparr>u_subscription_status := st, u_subscription_end_date := None\<rparr>) \<noteq>
          Inr (PyBool True))"
proof
  assume "valid_wallclock e"
  then have parsed: "fromisoformat (str_replace CHR ''Z'' ''+00:00'' (isoformat e)) =
      Inr \<lparr>clock = e, tzinfo = None\<rparr>"
    by (rule fromisoformat_isoformat)
  have written: "isoformat e \<noteq> []"
    by (simp add: isoformat_def zfill_not_empty)
  show "is_trial_expired utcnow (u\<lparr>u_trial_end_date := Some (isoformat e)\<rparr>) =
       Inr (sort_key e < sort_key utcnow) \<and>
     is_subscription_active utcnow
       (u\<lparr>u_subscription_status := ''trial'', u_trial_end_date := Some (isoformat e)\<rparr>) =
       Inr (PyBool (sort_key utcnow \<le> sort_key e)) \<and>
     (st \<noteq> ''trial'' \<longrightarrow>
        is_subscription_active utcnow
          (u\<lparr>u_subscription_status := st, u_subscription_end_date := Some (isoformat e)\<rparr>) =
          Inr (PyBool (st = ''active'' \<and> sort_key utcnow \<le> sort_key e)) \<and>
        is_subscription_active utcnow
          (u\<lparr>u_subscription_status := st, u_subscription_end_date := None\<rparr>) \<noteq>
          Inr (PyBool True))"
    by (auto simp: is_trial_expired_def is_subscription_active_def dt_gt_def dt_le_def
          not_less parsed written)
qed

lemma isoformat_may_8: "isoformat may_8_2024_nine = ''2024-05-08T09:00:00''"
  by (simp add: isoformat_def zfill_def str_nat.simps digit_char_def may_8_2024_nine_def)

theorem gate_on_written_timestamp_witness:
  "valid_wallclock may_8_2024_nine \<and> ''active'' \<noteq> ''trial'' \<and>
   isoformat may_8_2024_nine = ''2024-05-08T09:00:00'' \<and>
   is_trial_expired may_8_2024_nine
     (witness_user\<lparr>u_trial_end_date := Some ''2024-05-08T09:00:00''\<rparr>) = Inr False \<and>
   is_subscription_active may_8_2024_nine
     (witness_user\<lparr>u_subscription_status := ''trial'',
        u_trial_end_date := Some ''2024-05-08T09:00:00''\<rparr>) = Inr (PyBool True) \<and>
   is_subscription_active may_8_2024_nine
     (witness_user\<lparr>u_subscription_status := ''active'',
        u_subscription_end_date := Some ''2024-05-08T09:00:00''\<rparr>) = Inr (PyBool True) \<and>
   is_trial_expired june_2024_noon
     (witness_user\<lparr>u_trial_end_date := Some ''2024-05-08T09:00:00''\<rparr>) = Inr True \<and>
   is_subscription_active june_2024_noon
     (witness_user\<lparr>u_subscription_status := ''active'',
        u_subscription_end_date := Some ''2024-05-08T09:00:00''\<rparr>) = Inr (PyBool False)"
proof -
  have valid: "valid_wallclock may_8_2024_nine"
    by (simp add: valid_wallclock_def may_8_2024_nine_def days_in_month_def)
  have order: "\<not> sort_key may_8_2024_nine < sort_key may_8_2024_nine"
    "sort_key may_8_2024_nine < sort_key june_2024_noon"
    "\<not> sort_key june_2024_noon \<le> sort_key may_8_2024_nine"
    by (simp_all add: sort_key_def may_8_2024_nine_def june_2024_noon_def)
  from gate_on_written_timestamp [where e = may_8_2024_nine and utcnow = may_8_2024_nine
      and u = witness_user and st = "''active''"]
    gate_on_written_timestamp [where e = may_8_2024_nine and utcnow = june_2024_noon
      and u = witness_user and st = "''active''"]
    valid order
  show ?thesis
    unfolding isoformat_may_8 by simp
qed

subsection \<open>Registration\<close>








end
